theory Spec2Isabelle
  imports Complex_Main "HOL-Library.Sublist"
begin

section \<open>FOUNDprint: entropy resolution and aggregation\<close>

text \<open>
  A shallow embedding of \<^verbatim>\<open>foundprint.js\<close>: the reference tables, the lookup
  resolver, the entropy formulas, the pixel-ratio analysis, the fingerprint
  serialisation and the loop of \<^verbatim>\<open>runExperiment\<close>.

  Conventions of the model.
  \<^item> A JavaScript number is a \<^typ>\<open>real\<close>; decimal literals of the source stand for
    the rationals they denote. NaN and the infinities are not values of the model.
  \<^item> A JavaScript string is a \<^typ>\<open>string\<close>, one \<^typ>\<open>char\<close> per code unit
    (code units below 256).
  \<^item> An object literal used as a table is the association list of its own
    properties, in the order the literal writes them, one entry per key. The
    members that objects inherit from \<^verbatim>\<open>Object.prototype\<close> are not entries of the
    table; their names are listed in \<open>objectPrototypeMembers\<close>, and a statement that
    depends on a property read finding nothing excludes these names.
  \<^item> \<^verbatim>\<open>null\<close> and \<^verbatim>\<open>undefined\<close> fields are \<^const>\<open>None\<close>.
\<close>

subsection \<open>Section 1: configuration\<close>

definition WORLD_POPULATION :: real where
  "WORLD_POPULATION = 8300000000"

subsection \<open>Section 2: market share tables\<close>

record dataSource =
  ds_source :: string
  ds_sourceLabel :: string
  ds_note :: "string option"
  ds_data :: "(string \<times> real) list"
  ds_defaultPercent :: "real option"
  ds_estimated :: "bool option"

definition PANOPTICLICK_ENTROPY_TS :: string where
  "PANOPTICLICK_ENTROPY_TS =
     ''https://github.com/panopticlick/Panopticlick/blob/main/packages/valuation-engine/src/entropy.ts''"

definition PANOPTICLICK_COMPARISON_TS :: string where
  "PANOPTICLICK_COMPARISON_TS =
     ''https://github.com/panopticlick/Panopticlick/blob/main/packages/valuation-engine/src/comparison.ts''"

definition SCREEN_RESOLUTION_DATA :: dataSource where
  "SCREEN_RESOLUTION_DATA = \<lparr>
     ds_source = PANOPTICLICK_ENTROPY_TS,
     ds_sourceLabel = ''Panopticlick POPULATION_STATS.screenResolutions'',
     ds_note = None,
     ds_data = [(''1920x1080'', 23), (''1366x768'', 19), (''1536x864'', 8),
                (''1440x900'', 5), (''1280x720'', 4), (''2560x1440'', 4),
                (''1600x900'', 3), (''1280x800'', 3), (''3840x2160'', 2)],
     ds_defaultPercent = Some 1.0,
     ds_estimated = None \<rparr>"

definition BROWSER_DATA :: dataSource where
  "BROWSER_DATA = \<lparr>
     ds_source = PANOPTICLICK_COMPARISON_TS,
     ds_sourceLabel = ''Panopticlick POPULATION_DATA.browsers'',
     ds_note = None,
     ds_data = [(''Chrome'', 65), (''Safari'', 18), (''Edge'', 5), (''Firefox'', 3),
                (''Opera'', 2)],
     ds_defaultPercent = Some 1.0,
     ds_estimated = None \<rparr>"

definition GPU_DATA :: dataSource where
  "GPU_DATA = \<lparr>
     ds_source = ''https://store.steampowered.com/hwsurvey/directx/'',
     ds_sourceLabel = ''Steam Hardware Survey (fallback)'',
     ds_note = Some ''Panopticlick lacks GPU data; Steam data is gamer-skewed'',
     ds_data = [(''NVIDIA GeForce RTX 3060'', 8.32), (''NVIDIA GeForce RTX 4060'', 7.92),
                (''NVIDIA GeForce RTX 3050'', 5.92), (''NVIDIA GeForce GTX 1650'', 5.60),
                (''NVIDIA GeForce RTX 4060 Ti'', 5.26), (''NVIDIA GeForce RTX 3060 Ti'', 4.78),
                (''NVIDIA GeForce RTX 3070'', 4.48), (''AMD Radeon Graphics'', 4.24),
                (''NVIDIA GeForce RTX 4070'', 4.14), (''NVIDIA GeForce RTX 2060'', 3.92),
                (''NVIDIA GeForce GTX 1060'', 3.60), (''Intel Iris Xe'', 3.52),
                (''Intel UHD Graphics'', 2.0), (''AMD Radeon RX'', 2.0),
                (''Apple M1'', 1.5), (''Apple M2'', 1.0), (''Apple M3'', 0.8)],
     ds_defaultPercent = Some 0.5,
     ds_estimated = None \<rparr>"

definition PIXEL_RATIO_DATA :: dataSource where
  "PIXEL_RATIO_DATA = \<lparr>
     ds_source = PANOPTICLICK_ENTROPY_TS,
     ds_sourceLabel = ''Panopticlick POPULATION_STATS.pixelRatios'',
     ds_note = None,
     ds_data = [(''1'', 45), (''2'', 30), (''1.25'', 10), (''1.5'', 8), (''3'', 3),
                (''2.5'', 2)],
     ds_defaultPercent = Some 2.0,
     ds_estimated = None \<rparr>"

definition DNT_DATA :: dataSource where
  "DNT_DATA = \<lparr>
     ds_source = PANOPTICLICK_COMPARISON_TS,
     ds_sourceLabel = ''Panopticlick POPULATION_DATA.privacyTools'',
     ds_note = None,
     ds_data = [(''1'', 20), (''0'', 3), (''null'', 77)],
     ds_defaultPercent = Some 77,
     ds_estimated = None \<rparr>"

definition CPU_CORES_DATA :: dataSource where
  "CPU_CORES_DATA = \<lparr>
     ds_source = PANOPTICLICK_ENTROPY_TS,
     ds_sourceLabel = ''Panopticlick POPULATION_STATS.cpuCores'',
     ds_note = None,
     ds_data = [(''1'', 1), (''2'', 15), (''4'', 35), (''6'', 15), (''8'', 20),
                (''12'', 5), (''16'', 5)],
     ds_defaultPercent = Some 4.0,
     ds_estimated = None \<rparr>"

definition DEVICE_MEMORY_DATA :: dataSource where
  "DEVICE_MEMORY_DATA = \<lparr>
     ds_source = PANOPTICLICK_ENTROPY_TS,
     ds_sourceLabel = ''Panopticlick POPULATION_STATS.deviceMemory'',
     ds_note = None,
     ds_data = [(''2'', 5), (''4'', 25), (''8'', 45), (''16'', 15), (''32'', 5)],
     ds_defaultPercent = Some 5.0,
     ds_estimated = None \<rparr>"

text \<open>The ad blocker table is the one table without a \<^verbatim>\<open>defaultPercent\<close>.\<close>

definition AD_BLOCKER_DATA :: dataSource where
  "AD_BLOCKER_DATA = \<lparr>
     ds_source = PANOPTICLICK_COMPARISON_TS,
     ds_sourceLabel = ''Panopticlick POPULATION_DATA.privacyTools'',
     ds_note = None,
     ds_data = [(''true'', 42), (''false'', 58)],
     ds_defaultPercent = None,
     ds_estimated = None \<rparr>"

definition TIMEZONE_DATA :: dataSource where
  "TIMEZONE_DATA = \<lparr>
     ds_source = PANOPTICLICK_ENTROPY_TS,
     ds_sourceLabel = ''Panopticlick POPULATION_STATS.timezones'',
     ds_note = None,
     ds_data = [(''America/New_York'', 12), (''America/Los_Angeles'', 10),
                (''America/Chicago'', 8), (''Asia/Shanghai'', 6), (''Europe/London'', 5),
                (''Asia/Tokyo'', 4), (''Europe/Paris'', 3), (''Europe/Berlin'', 3)],
     ds_defaultPercent = Some 1.0,
     ds_estimated = None \<rparr>"

definition LANGUAGE_DATA :: dataSource where
  "LANGUAGE_DATA = \<lparr>
     ds_source = PANOPTICLICK_ENTROPY_TS,
     ds_sourceLabel = ''Panopticlick POPULATION_STATS.languages'',
     ds_note = None,
     ds_data = [(''en-US'', 35), (''zh-CN'', 10), (''en-GB'', 5), (''es'', 5), (''de'', 3),
                (''fr'', 3), (''ja'', 3)],
     ds_defaultPercent = Some 1.0,
     ds_estimated = None \<rparr>"

definition PLATFORM_DATA :: dataSource where
  "PLATFORM_DATA = \<lparr>
     ds_source = PANOPTICLICK_ENTROPY_TS,
     ds_sourceLabel = ''Panopticlick POPULATION_STATS.platforms'',
     ds_note = None,
     ds_data = [(''Win32'', 70), (''MacIntel'', 15), (''iPhone'', 5), (''Android'', 4),
                (''Linux x86_64'', 3), (''iPad'', 2)],
     ds_defaultPercent = Some 1.0,
     ds_estimated = None \<rparr>"

definition marketShareTables :: "dataSource list" where
  "marketShareTables =
     [SCREEN_RESOLUTION_DATA, BROWSER_DATA, GPU_DATA, PIXEL_RATIO_DATA, DNT_DATA,
      CPU_CORES_DATA, DEVICE_MEMORY_DATA, AD_BLOCKER_DATA, TIMEZONE_DATA, LANGUAGE_DATA,
      PLATFORM_DATA]"

subsection \<open>Section 3: baseline entropy values\<close>

record baseline =
  bits :: real
  bl_source :: "string option"
  bl_sourceLabel :: string
  bl_note :: string

definition PANOPTICLICK_2010 :: string where
  "PANOPTICLICK_2010 = ''https://coveryourtracks.eff.org/static/browser-uniqueness.pdf''"

definition AMIUNIQUE_2016 :: string where
  "AMIUNIQUE_2016 = ''https://hal.inria.fr/hal-01285470/document''"

definition HITC_2018 :: string where
  "HITC_2018 = ''https://hal.inria.fr/hal-01718234v2/document''"

definition BASELINE_canvas :: baseline where
  "BASELINE_canvas = \<lparr> bits = 8.04, bl_source = Some HITC_2018,
     bl_sourceLabel = ''Hiding in the Crowd 2018 (Table 3)'',
     bl_note = ''Conservative estimate; AmIUnique found 8.28 bits'' \<rparr>"

definition BASELINE_audio :: baseline where
  "BASELINE_audio = \<lparr> bits = 10, bl_source = Some PANOPTICLICK_ENTROPY_TS,
     bl_sourceLabel = ''Panopticlick entropy.ts (code comment)'',
     bl_note = ''Based on Panopticlick implementation; no academic baseline available'' \<rparr>"

definition BASELINE_webglRenderer :: baseline where
  "BASELINE_webglRenderer = \<lparr> bits = 3.41, bl_source = Some AMIUNIQUE_2016,
     bl_sourceLabel = ''AmIUnique 2016 (Table 2)'',
     bl_note = ''Conservative estimate; HitC 2018 found 5.28 bits'' \<rparr>"

definition BASELINE_webglVendor :: baseline where
  "BASELINE_webglVendor = \<lparr> bits = 1.82, bl_source = Some HITC_2018,
     bl_sourceLabel = ''Hiding in the Crowd 2018 (Table 3)'',
     bl_note = ''Conservative estimate; AmIUnique found 2.14 bits'' \<rparr>"

definition BASELINE_fonts :: baseline where
  "BASELINE_fonts = \<lparr> bits = 6.97, bl_source = Some HITC_2018,
     bl_sourceLabel = ''Hiding in the Crowd 2018 (Table 3)'',
     bl_note = ''Conservative estimate; Panopticlick found 13.9 bits'' \<rparr>"

definition BASELINE_userAgent :: baseline where
  "BASELINE_userAgent = \<lparr> bits = 6.32, bl_source = Some HITC_2018,
     bl_sourceLabel = ''Hiding in the Crowd 2018 (Table 3)'',
     bl_note = ''Conservative estimate; Panopticlick found 10.0 bits'' \<rparr>"

definition BASELINE_timezone :: baseline where
  "BASELINE_timezone = \<lparr> bits = 3.04, bl_source = Some PANOPTICLICK_2010,
     bl_sourceLabel = ''Panopticlick 2010'',
     bl_note = ''HitC 2018 (0.10 bits) excluded due to French geographic bias'' \<rparr>"

definition BASELINE_language :: baseline where
  "BASELINE_language = \<lparr> bits = 2.56, bl_source = Some HITC_2018,
     bl_sourceLabel = ''Hiding in the Crowd 2018 (Table 3)'',
     bl_note = ''Conservative estimate; AmIUnique found 5.92 bits'' \<rparr>"

definition BASELINE_touchSupport :: baseline where
  "BASELINE_touchSupport = \<lparr> bits = 1, bl_source = Some PANOPTICLICK_ENTROPY_TS,
     bl_sourceLabel = ''Panopticlick entropy.ts (calculateTouchPointsEntropy)'',
     bl_note = ''Desktop (0 touch) = 1 bit; touch devices = 2-3 bits'' \<rparr>"

definition BASELINE_connectionType :: baseline where
  "BASELINE_connectionType = \<lparr> bits = 1.5, bl_source = None,
     bl_sourceLabel = ''No public dataset'',
     bl_note = ''Estimated; no academic baseline available'' \<rparr>"

definition BASELINE_plugins :: baseline where
  "BASELINE_plugins = \<lparr> bits = 0.21, bl_source = Some HITC_2018,
     bl_sourceLabel = ''Hiding in the Crowd 2018 Mobile (Table 3)'',
     bl_note = ''Plugins largely deprecated; desktop was 10.28 bits'' \<rparr>"

definition BASELINE_doNotTrack :: baseline where
  "BASELINE_doNotTrack = \<lparr> bits = 0.94, bl_source = Some AMIUNIQUE_2016,
     bl_sourceLabel = ''AmIUnique 2016 (Table 2)'',
     bl_note = ''Conservative estimate; HitC 2018 found 1.92 bits'' \<rparr>"

definition BASELINE_cookiesEnabled :: baseline where
  "BASELINE_cookiesEnabled = \<lparr> bits = 0.00, bl_source = Some HITC_2018,
     bl_sourceLabel = ''Hiding in the Crowd 2018 (Table 3)'',
     bl_note = ''Nearly universal; provides no distinguishing information'' \<rparr>"

definition BASELINE_localStorage :: baseline where
  "BASELINE_localStorage = \<lparr> bits = 0.04, bl_source = Some HITC_2018,
     bl_sourceLabel = ''Hiding in the Crowd 2018 (Table 3)'',
     bl_note = ''Nearly universal; provides minimal distinguishing information'' \<rparr>"

definition BASELINE_screenResolution :: baseline where
  "BASELINE_screenResolution = \<lparr> bits = 4.83, bl_source = Some PANOPTICLICK_2010,
     bl_sourceLabel = ''Panopticlick 2010'',
     bl_note = ''Used when resolution not in Panopticlick POPULATION_STATS lookup table'' \<rparr>"

definition BASELINE_pixelRatio :: baseline where
  "BASELINE_pixelRatio = \<lparr> bits = 2.0, bl_source = Some PANOPTICLICK_ENTROPY_TS,
     bl_sourceLabel = ''Panopticlick POPULATION_STATS (estimated for unlisted)'',
     bl_note = ''For pixel ratios not in the lookup table'' \<rparr>"

definition BASELINE_platform :: baseline where
  "BASELINE_platform = \<lparr> bits = 0.56, bl_source = Some PANOPTICLICK_2010,
     bl_sourceLabel = ''Panopticlick 2010'',
     bl_note = ''Used when platform not in Panopticlick POPULATION_STATS lookup table'' \<rparr>"

definition BASELINE_cpuCores :: baseline where
  "BASELINE_cpuCores = \<lparr> bits = 3.0, bl_source = Some PANOPTICLICK_ENTROPY_TS,
     bl_sourceLabel = ''Panopticlick POPULATION_STATS (estimated for unlisted)'',
     bl_note = ''For core counts not in the lookup table'' \<rparr>"

definition BASELINE_deviceMemory :: baseline where
  "BASELINE_deviceMemory = \<lparr> bits = 3.0, bl_source = Some PANOPTICLICK_ENTROPY_TS,
     bl_sourceLabel = ''Panopticlick POPULATION_STATS (estimated for unlisted)'',
     bl_note = ''For memory sizes not in the lookup table'' \<rparr>"

definition BASELINE_ENTROPY :: "(string \<times> baseline) list" where
  "BASELINE_ENTROPY =
     [(''canvas'', BASELINE_canvas), (''audio'', BASELINE_audio),
      (''webglRenderer'', BASELINE_webglRenderer), (''webglVendor'', BASELINE_webglVendor),
      (''fonts'', BASELINE_fonts), (''userAgent'', BASELINE_userAgent),
      (''timezone'', BASELINE_timezone), (''language'', BASELINE_language),
      (''touchSupport'', BASELINE_touchSupport),
      (''connectionType'', BASELINE_connectionType), (''plugins'', BASELINE_plugins),
      (''doNotTrack'', BASELINE_doNotTrack), (''cookiesEnabled'', BASELINE_cookiesEnabled),
      (''localStorage'', BASELINE_localStorage),
      (''screenResolution'', BASELINE_screenResolution),
      (''pixelRatio'', BASELINE_pixelRatio), (''platform'', BASELINE_platform),
      (''cpuCores'', BASELINE_cpuCores), (''deviceMemory'', BASELINE_deviceMemory)]"

text \<open>
  The figures that the comment above each record of \<^verbatim>\<open>BASELINE_ENTROPY\<close> (and the
  record's \<^verbatim>\<open>note\<close>) documents for the attribute, with the study or data set each is
  taken from. Three records document no figure but the estimate they use; the
  pixel-ratio record documents one figure, derived from the "other" bucket of the
  Panopticlick table, and uses a lower estimate.
\<close>

definition documentedCandidates :: "(string \<times> (string \<times> real) list) list" where
  "documentedCandidates =
     [(''canvas'', [(''HitC 2018'', 8.04), (''AmIUnique 2016'', 8.28)]),
      (''audio'', [(''Panopticlick entropy.ts'', 10)]),
      (''webglRenderer'', [(''AmIUnique 2016'', 3.41), (''HitC 2018'', 5.28)]),
      (''webglVendor'', [(''AmIUnique 2016'', 2.14), (''HitC 2018'', 1.82)]),
      (''fonts'', [(''Panopticlick 2010'', 13.9), (''AmIUnique 2016'', 8.38),
                   (''HitC 2018'', 6.97)]),
      (''userAgent'', [(''Panopticlick 2010'', 10.0), (''AmIUnique 2016'', 9.78),
                       (''HitC 2018'', 6.32)]),
      (''timezone'', [(''Panopticlick 2010'', 3.04), (''AmIUnique 2016'', 3.34),
                      (''HitC 2018'', 0.10)]),
      (''language'', [(''AmIUnique 2016'', 5.92), (''HitC 2018'', 2.56)]),
      (''touchSupport'', [(''Panopticlick entropy.ts, 0 touch points'', 1),
                          (''Panopticlick entropy.ts, touch devices'', 2),
                          (''Panopticlick entropy.ts, touch devices'', 3)]),
      (''connectionType'', []),
      (''plugins'', [(''Panopticlick 2010'', 15.4), (''AmIUnique 2016'', 11.06),
                     (''HitC 2018 Desktop'', 10.28), (''HitC 2018 Mobile'', 0.21)]),
      (''doNotTrack'', [(''AmIUnique 2016'', 0.94), (''HitC 2018'', 1.92)]),
      (''cookiesEnabled'', [(''Panopticlick 2010'', 0.35), (''AmIUnique 2016'', 0.25),
                            (''HitC 2018'', 0.00)]),
      (''localStorage'', [(''AmIUnique 2016'', 0.41), (''HitC 2018'', 0.04)]),
      (''screenResolution'', [(''Panopticlick 2010'', 4.83), (''AmIUnique 2016'', 5.21),
                              (''HitC 2018'', 4.83)]),
      (''pixelRatio'', [(''Panopticlick POPULATION_STATS, other'', 5.64)]),
      (''platform'', [(''Panopticlick 2010'', 0.56), (''AmIUnique 2016'', 1.06)]),
      (''cpuCores'', []),
      (''deviceMemory'', [])]"

text \<open>The one documented exclusion: the timezone figure of HitC 2018.\<close>

definition excludedCandidates :: "(string \<times> (string \<times> real)) list" where
  "excludedCandidates = [(''timezone'', (''HitC 2018'', 0.10))]"

definition candidateValues :: "string \<Rightarrow> real list" where
  "candidateValues key =
     (case map_of documentedCandidates key of None \<Rightarrow> [] | Some cs \<Rightarrow> map snd cs)"

definition admittedValues :: "string \<Rightarrow> real list" where
  "admittedValues key =
     (case map_of documentedCandidates key of
        None \<Rightarrow> []
      | Some cs \<Rightarrow> map snd (filter (\<lambda>c. (key, c) \<notin> set excludedCandidates) cs))"

text \<open>\<open>b\<close> is the minimum of the values \<open>cs\<close>: there is a value, and \<open>b\<close> is the least.\<close>

definition isMinimumOf :: "real \<Rightarrow> real list \<Rightarrow> bool" where
  "isMinimumOf b cs = (cs \<noteq> [] \<and> b = Min (set cs))"

text \<open>The records whose bits are an estimate, not a figure of a study.\<close>

definition estimateOnlyKeys :: "string list" where
  "estimateOnlyKeys = [''connectionType'', ''pixelRatio'', ''cpuCores'', ''deviceMemory'']"

text \<open>
  The selection policy, record by record: the timezone record takes the least
  admitted figure, the least documented one being the excluded, lower figure; a record of
  \<open>estimateOnlyKeys\<close> takes a figure that none of its documented figures undercuts;
  every other record takes the least documented figure.
\<close>

definition followsSelectionPolicy :: "string \<times> baseline \<Rightarrow> bool" where
  "followsSelectionPolicy e =
     (let key = fst e; b = bits (snd e) in
      if key = ''timezone''
      then (key, (''HitC 2018'', 0.10)) \<in> set excludedCandidates
           \<and> isMinimumOf 0.10 (candidateValues key)
           \<and> admittedValues key = [3.04, 3.34]
           \<and> isMinimumOf b (admittedValues key)
           \<and> 0.10 < b
      else if key \<in> set estimateOnlyKeys
      then \<not> isMinimumOf b (candidateValues key)
           \<and> list_all (\<lambda>c. b < c) (candidateValues key)
      else admittedValues key = candidateValues key
           \<and> isMinimumOf b (candidateValues key))"

subsection \<open>Section 4: lookup utilities\<close>

text \<open>
  \<^verbatim>\<open>String.prototype.trim\<close> strips white space and line terminators from both
  ends; among the code units below 256 these are TAB, LF, VT, FF, CR, SPACE and
  NBSP.
\<close>

definition isWhiteSpace :: "char \<Rightarrow> bool" where
  "isWhiteSpace c =
     (c \<in> set [CHR 0x09, CHR 0x0A, CHR 0x0B, CHR 0x0C, CHR 0x0D, CHR 0x20, CHR 0xA0])"

definition trim :: "string \<Rightarrow> string" where
  "trim s = rev (dropWhile isWhiteSpace (rev (dropWhile isWhiteSpace s)))"

text \<open>\<^verbatim>\<open>s.includes(k)\<close>: \<open>k\<close> occurs in \<open>s\<close> as a contiguous substring.\<close>

fun str_includes :: "string \<Rightarrow> string \<Rightarrow> bool" where
  "str_includes [] k = (k = [])"
| "str_includes (c # s) k = (prefix k (c # s) \<or> str_includes s k)"

text \<open>
  \<^verbatim>\<open>Object.keys\<close> lists the own keys that are array indices (canonical decimal
  numerals below \<open>2^32 - 1\<close>) first, in ascending numeric order, and then the
  other keys in the order of their creation.
\<close>

definition isDigit :: "char \<Rightarrow> bool" where
  "isDigit c = (48 \<le> (of_char c :: nat) \<and> (of_char c :: nat) \<le> 57)"

definition digitsValue :: "string \<Rightarrow> nat" where
  "digitsValue s = foldl (\<lambda>n c. 10 * n + ((of_char c :: nat) - 48)) 0 s"

definition isArrayIndex :: "string \<Rightarrow> bool" where
  "isArrayIndex s =
     (s \<noteq> [] \<and> list_all isDigit s \<and> (hd s \<noteq> CHR ''0'' \<or> s = ''0'')
      \<and> digitsValue s < 2 ^ 32 - 1)"

definition ownEntries :: "(string \<times> 'a) list \<Rightarrow> (string \<times> 'a) list" where
  "ownEntries d =
     sort_key (\<lambda>e. digitsValue (fst e)) (filter (\<lambda>e. isArrayIndex (fst e)) d)
     @ filter (\<lambda>e. \<not> isArrayIndex (fst e)) d"

definition objectKeys :: "(string \<times> 'a) list \<Rightarrow> string list" where
  "objectKeys d = map fst (ownEntries d)"

record share =
  percent :: real
  share_source :: string
  estimated :: bool

text \<open>\<^verbatim>\<open>dataSource.estimated || false\<close>\<close>

definition estimatedOrFalse :: "dataSource \<Rightarrow> bool" where
  "estimatedOrFalse dataSource =
     (case ds_estimated dataSource of None \<Rightarrow> False | Some b \<Rightarrow> b)"

text \<open>\<^verbatim>\<open>dataSource.defaultPercent || 1.0\<close>: a missing or zero default is replaced.\<close>

definition defaultPercentOrOne :: "dataSource \<Rightarrow> real" where
  "defaultPercentOrOne dataSource =
     (case ds_defaultPercent dataSource of
        None \<Rightarrow> 1.0
      | Some p \<Rightarrow> if p = 0 then 1.0 else p)"

text \<open>
  A table is an object literal, and a property read on it follows the prototype
  chain: besides its own keys, \<^verbatim>\<open>dataSource.data[name]\<close> answers to the names of the
  members that every object inherits from \<^verbatim>\<open>Object.prototype\<close>. These are the
  names below (the standard members and the legacy accessors); none of them is a
  key of a table of the program.
\<close>

definition objectPrototypeMembers :: "string list" where
  "objectPrototypeMembers =
     [''constructor'', ''hasOwnProperty'', ''isPrototypeOf'', ''propertyIsEnumerable'',
      ''toLocaleString'', ''toString'', ''valueOf'', ''__proto__'',
      ''__defineGetter__'', ''__defineSetter__'', ''__lookupGetter__'',
      ''__lookupSetter__'']"

text \<open>A value whose normalised form is one of these names.\<close>

definition inheritedName :: "string \<Rightarrow> bool" where
  "inheritedName v = (trim v \<in> set objectPrototypeMembers)"

text \<open>Strategy 2, the loop over \<^verbatim>\<open>Object.keys(dataSource.data)\<close>.\<close>

fun partialMatch :: "dataSource \<Rightarrow> string \<Rightarrow> (string \<times> real) list \<Rightarrow> share option" where
  "partialMatch dataSource normalizedValue [] = None"
| "partialMatch dataSource normalizedValue ((key, p) # rest) =
     (if str_includes normalizedValue key \<or> str_includes key normalizedValue
      then Some \<lparr> percent = p, share_source = ds_source dataSource,
                  estimated = estimatedOrFalse dataSource \<rparr>
      else partialMatch dataSource normalizedValue rest)"

text \<open>
  \<^verbatim>\<open>lookupMarketShare\<close>. Strategy 1 reads \<^verbatim>\<open>dataSource.data[normalizedValue]\<close>; the
  table being modelled by its own properties, the definition covers the values
  that are not an \<open>inheritedName\<close>. For an inherited name the read yields the
  inherited member (a function or an object, not \<^verbatim>\<open>undefined\<close>), and the code
  returns that member as \<^verbatim>\<open>percent\<close> with \<^verbatim>\<open>estimated\<close> false; the arithmetic on it
  gives \<^verbatim>\<open>NaN\<close>, which the numbers of this development do not have. Every statement
  below that depends on strategy 1 missing excludes these values by hypothesis.
\<close>

definition lookupMarketShare :: "dataSource \<Rightarrow> string \<Rightarrow> share" where
  "lookupMarketShare dataSource v =
     (let normalizedValue = trim v in
      case map_of (ds_data dataSource) normalizedValue of
        Some p \<Rightarrow> \<lparr> percent = p, share_source = ds_source dataSource,
                    estimated = estimatedOrFalse dataSource \<rparr>
      | None \<Rightarrow>
          (case partialMatch dataSource normalizedValue (ownEntries (ds_data dataSource)) of
             Some r \<Rightarrow> r
           | None \<Rightarrow> \<lparr> percent = defaultPercentOrOne dataSource,
                        share_source = ds_source dataSource, estimated = True \<rparr>))"

definition percentToEntropy :: "real \<Rightarrow> real" where
  "percentToEntropy p = (if p \<le> 0 then 10 else log 2 (100 / p))"

definition percentToOneInX :: "real \<Rightarrow> real" where
  "percentToOneInX p = (if p \<le> 0 then 1000 else 100 / p)"

text \<open>The test of the partial-match loop, named for the statements below.\<close>

definition keyMatches :: "string \<Rightarrow> string \<Rightarrow> bool" where
  "keyMatches normalizedValue key =
     (str_includes normalizedValue key \<or> str_includes key normalizedValue)"

text \<open>
  The partial-match tier as the specification words it: the first matching key
  in the order in which the table was written (insertion order).
\<close>

definition spec_firstInsertionMatch :: "dataSource \<Rightarrow> string \<Rightarrow> (string \<times> real) option" where
  "spec_firstInsertionMatch dataSource v =
     find (\<lambda>e. keyMatches (trim v) (fst e)) (ds_data dataSource)"

subsection \<open>Section 5: general utilities\<close>

text \<open>\<^verbatim>\<open>Math.round\<close> rounds to the nearest integer, halves upwards.\<close>

definition js_round :: "real \<Rightarrow> int" where
  "js_round x = \<lfloor>x + 1 / 2\<rfloor>"

datatype confidence = High | Medium | Low

record analysis =
  displayRatio :: real
  trueDPR :: real
  zoomPercent :: real
  isZoomed :: bool
  confidence :: confidence
  matchedBucket :: string

definition knownDPRs :: "real list" where
  "knownDPRs = [1, 1.25, 1.5, 2, 2.5, 3]"

text \<open>The pairs \<open>(zoom, percent)\<close> of \<^verbatim>\<open>commonZoomLevels\<close>.\<close>

definition commonZoomLevels :: "(real \<times> real) list" where
  "commonZoomLevels =
     [(1.0, 100), (1.1, 110), (1.2, 120), (1.25, 125), (1.33, 133), (1.5, 150),
      (1.75, 175), (2.0, 200), (0.9, 90), (0.8, 80), (0.75, 75), (0.67, 67),
      (0.5, 50), (0.33, 33), (0.3, 30)]"

definition tolerance :: real where
  "tolerance = 0.015"

text \<open>
  The nested loops that fill \<^verbatim>\<open>allMatches\<close>; each match is paired with its
  \<^verbatim>\<open>diff\<close>, the property the function deletes again before returning.
\<close>

definition zoomMatches :: "(real \<Rightarrow> string) \<Rightarrow> real \<Rightarrow> real \<Rightarrow> (analysis \<times> real) list" where
  "zoomMatches toStr ratio baseDPR =
     concat (map (\<lambda>(zoom, pct).
        if pct = 100 then []
        else (let expectedRatio = baseDPR * zoom;
                  d = \<bar>ratio - expectedRatio\<bar>
              in if d < tolerance
                 then [(\<lparr> displayRatio = ratio, trueDPR = baseDPR, zoomPercent = pct,
                          isZoomed = True, confidence = Medium,
                          matchedBucket = toStr baseDPR \<rparr>, d)]
                 else []))
       commonZoomLevels)"

definition allMatches :: "(real \<Rightarrow> string) \<Rightarrow> real \<Rightarrow> (analysis \<times> real) list" where
  "allMatches toStr ratio = concat (map (zoomMatches toStr ratio) knownDPRs)"

text \<open>The comparator handed to \<^verbatim>\<open>sort\<close>: lower base ratio first, then smaller diff.\<close>

definition compareMatches :: "analysis \<times> real \<Rightarrow> analysis \<times> real \<Rightarrow> real" where
  "compareMatches a b =
     (if trueDPR (fst a) \<noteq> trueDPR (fst b) then trueDPR (fst a) - trueDPR (fst b)
      else snd a - snd b)"

text \<open>\<^verbatim>\<open>Array.prototype.sort\<close> is a stable sort; it is modelled as insertion sort.\<close>

fun insertBy :: "('a \<Rightarrow> 'a \<Rightarrow> real) \<Rightarrow> 'a \<Rightarrow> 'a list \<Rightarrow> 'a list" where
  "insertBy cmp x [] = [x]"
| "insertBy cmp x (y # ys) =
     (if cmp x y \<le> 0 then x # y # ys else y # insertBy cmp x ys)"

definition sortBy :: "('a \<Rightarrow> 'a \<Rightarrow> real) \<Rightarrow> 'a list \<Rightarrow> 'a list" where
  "sortBy cmp xs = foldr (insertBy cmp) xs []"

definition analyzePixelRatio :: "(real \<Rightarrow> string) \<Rightarrow> real \<Rightarrow> analysis" where
  "analyzePixelRatio toStr ratio =
     (let r = real_of_int (js_round (ratio * 1000)) / 1000 in
      case find (\<lambda>baseDPR. \<bar>r - baseDPR\<bar> < tolerance) knownDPRs of
        Some baseDPR \<Rightarrow>
          \<lparr> displayRatio = r, trueDPR = baseDPR, zoomPercent = 100, isZoomed = False,
            confidence = High, matchedBucket = toStr baseDPR \<rparr>
      | None \<Rightarrow>
          (case sortBy compareMatches (allMatches toStr r) of
             best # others \<Rightarrow> fst best
           | [] \<Rightarrow>
               \<lparr> displayRatio = r, trueDPR = 1,
                 zoomPercent = real_of_int (js_round (r * 100)), isZoomed = True,
                 confidence = Low, matchedBucket = ''1'' \<rparr>))"

subsection \<open>Values and their serialisation\<close>

text \<open>
  The values a test can hand back as \<^verbatim>\<open>result.value\<close>. The conversion of a number
  to a string (\<^verbatim>\<open>String(n)\<close>, template literals, \<^verbatim>\<open>JSON.stringify\<close> of a number) is
  a primitive of the language; the definitions that need it take it as the
  parameter \<open>toStr\<close>.
\<close>

datatype jsval =
    JUndefined
  | JNull
  | JBool bool
  | JNum real
  | JStr string
  | JArr "jsval list"
  | JObj "(string \<times> jsval) list"

text \<open>\<^verbatim>\<open>Array.prototype.join\<close> on an array of strings.\<close>

fun join :: "string \<Rightarrow> string list \<Rightarrow> string" where
  "join sep [] = []"
| "join sep [x] = x"
| "join sep (x # y # ys) = x @ sep @ join sep (y # ys)"

definition hexDigit :: "nat \<Rightarrow> char" where
  "hexDigit n = ''0123456789abcdef'' ! (n mod 16)"

text \<open>
  The escapes of \<^verbatim>\<open>JSON.stringify\<close> for one code unit: the quotation mark, the
  backslash and the control characters are escaped, every other character stands
  for itself.
\<close>

definition escapeChar :: "char \<Rightarrow> string" where
  "escapeChar c =
     (if c = CHR 0x08 then [CHR 0x5C, CHR ''b'']
      else if c = CHR 0x09 then [CHR 0x5C, CHR ''t'']
      else if c = CHR 0x0A then [CHR 0x5C, CHR ''n'']
      else if c = CHR 0x0C then [CHR 0x5C, CHR ''f'']
      else if c = CHR 0x0D then [CHR 0x5C, CHR ''r'']
      else if c = CHR 0x22 then [CHR 0x5C, CHR 0x22]
      else if c = CHR 0x5C then [CHR 0x5C, CHR 0x5C]
      else if (of_char c :: nat) < 32
      then [CHR 0x5C, CHR ''u'', CHR ''0'', CHR ''0'',
            hexDigit ((of_char c :: nat) div 16), hexDigit (of_char c :: nat)]
      else [c])"

definition quoteJSONString :: "string \<Rightarrow> string" where
  "quoteJSONString s = [CHR 0x22] @ concat (map escapeChar s) @ [CHR 0x22]"

text \<open>
  \<^verbatim>\<open>JSON.stringify\<close>; \<^const>\<open>None\<close> is the result \<^verbatim>\<open>undefined\<close>. Inside an array an
  undefined element is written \<^verbatim>\<open>null\<close>; inside an object a property with an undefined
  value is left out.
\<close>

primrec JSON_stringify :: "(real \<Rightarrow> string) \<Rightarrow> jsval \<Rightarrow> string option" where
  "JSON_stringify toStr JUndefined = None"
| "JSON_stringify toStr JNull = Some ''null''"
| "JSON_stringify toStr (JBool b) = Some (if b then ''true'' else ''false'')"
| "JSON_stringify toStr (JNum x) = Some (toStr x)"
| "JSON_stringify toStr (JStr s) = Some (quoteJSONString s)"
| "JSON_stringify toStr (JArr xs) =
     Some (''['' @ join '','' (map (\<lambda>r. case r of None \<Rightarrow> ''null'' | Some t \<Rightarrow> t)
                                 (map (JSON_stringify toStr) xs)) @ '']'')"
| "JSON_stringify toStr (JObj kvs) =
     Some (''{'' @ join '','' (concat (map (\<lambda>(k, r). case r of None \<Rightarrow> []
                                                   | Some t \<Rightarrow> [quoteJSONString k @ '':'' @ t])
                                 (map (map_prod id (JSON_stringify toStr)) kvs))) @ ''}'')"

text \<open>
  The string that \<^verbatim>\<open>generateFingerprintHash\<close> hands to \<^verbatim>\<open>md5\<close>:
  \<^verbatim>\<open>values.map(v => JSON.stringify(v)).join('|')\<close>. \<^verbatim>\<open>join\<close> writes an undefined
  element as the empty string.
\<close>

definition fingerprintString :: "(real \<Rightarrow> string) \<Rightarrow> jsval list \<Rightarrow> string" where
  "fingerprintString toStr vals =
     join ''|'' (map (\<lambda>v. case JSON_stringify toStr v of None \<Rightarrow> [] | Some t \<Rightarrow> t) vals)"

text \<open>
  The digest \<^verbatim>\<open>md5\<close> is not unfolded: \<open>generateFingerprintHash\<close> takes it as a
  parameter, and the statements below are about the string it is applied to.
\<close>

definition generateFingerprintHash ::
  "(string \<Rightarrow> string) \<Rightarrow> (real \<Rightarrow> string) \<Rightarrow> jsval list \<Rightarrow> string" where
  "generateFingerprintHash md5 toStr vals = md5 (fingerprintString toStr vals)"

text \<open>
  An instance for \<open>toStr\<close>, used where a statement has to be closed: the decimal
  numeral of a number with a finite decimal expansion, as \<^verbatim>\<open>Number.prototype.toString\<close>
  writes the numbers between \<open>10^-6\<close> and \<open>10^21\<close> (no exponent, no trailing zeros, at
  most 20 fractional digits here).
\<close>

definition digitChar :: "nat \<Rightarrow> char" where
  "digitChar n = ''0123456789'' ! (n mod 10)"

fun natDigits :: "nat \<Rightarrow> string" where
  "natDigits n = (if n < 10 then [digitChar n] else natDigits (n div 10) @ [digitChar n])"

declare natDigits.simps [simp del]

fun fracDigits :: "nat \<Rightarrow> real \<Rightarrow> string" where
  "fracDigits k f =
     (if k = 0 \<or> f = 0 then []
      else digitChar (nat \<lfloor>f * 10\<rfloor>)
           # fracDigits (k - 1) (f * 10 - real_of_int \<lfloor>f * 10\<rfloor>))"

declare fracDigits.simps [simp del]

definition positiveToString :: "real \<Rightarrow> string" where
  "positiveToString x =
     natDigits (nat \<lfloor>x\<rfloor>)
     @ (if x = real_of_int \<lfloor>x\<rfloor> then [] else ''.'' @ fracDigits 20 (x - real_of_int \<lfloor>x\<rfloor>))"

definition numberToString :: "real \<Rightarrow> string" where
  "numberToString x = (if x < 0 then ''-'' @ positiveToString (- x) else positiveToString x)"

subsection \<open>Section 5: number formatting\<close>

text \<open>
  The text of a formatted number is kept in structured form: the suffix chosen and
  the number printed. \<^verbatim>\<open>toFixed(1)\<close> prints one decimal, so \<open>Trillion n\<close> stands for
  \<open>n / 10\<close> followed by "trillion"; \<open>Grouped n\<close> is the integer \<open>n\<close> with digit grouping
  (\<^verbatim>\<open>toLocaleString\<close>), \<open>Plain n\<close> the integer \<open>n\<close>.
\<close>

datatype numberText = Trillion int | Billion int | Million int | Grouped int | Plain int

text \<open>
  \<^verbatim>\<open>x.toFixed(1)\<close>, as the number of tenths printed: the nearest number of
  tenths of the absolute value, the larger one at a tie, with the sign of \<open>x\<close>.
\<close>

definition toFixed1 :: "real \<Rightarrow> int" where
  "toFixed1 x = (if x < 0 then - \<lfloor>- x * 10 + 1 / 2\<rfloor> else \<lfloor>x * 10 + 1 / 2\<rfloor>)"

record formatted =
  fmt_text :: numberText
  isUnique :: bool
  raw :: real

definition formatNumber :: "real \<Rightarrow> formatted" where
  "formatNumber num =
     \<lparr> fmt_text =
         (if num \<ge> 10 ^ 12 then Trillion (toFixed1 (num / 10 ^ 12))
          else if num \<ge> 10 ^ 9 then Billion (toFixed1 (num / 10 ^ 9))
          else if num \<ge> 10 ^ 6 then Million (toFixed1 (num / 10 ^ 6))
          else if num \<ge> 10 ^ 3 then Grouped (js_round num)
          else Plain (js_round num)),
       isUnique = (num \<ge> WORLD_POPULATION),
       raw = num \<rparr>"

definition entropyToUniqueness :: "real \<Rightarrow> real" where
  "entropyToUniqueness b = 2 powr b"

subsection \<open>Section 6: the fingerprinting tests\<close>

text \<open>
  What a test's \<^verbatim>\<open>run\<close> hands back: \<open>Throws\<close> for an exception that leaves \<^verbatim>\<open>run\<close>,
  \<open>NoResult\<close> for \<^verbatim>\<open>null\<close> or \<^verbatim>\<open>undefined\<close>, and a result object otherwise. The message
  of a result is display text assembled from the same readings and is left out.
\<close>

record lookupInfo =
  lk_percent :: "real option"
  lk_source :: "string option"
  lk_sourceLabel :: string
  lk_estimated :: bool
  lk_entropy :: "real option"
  lk_oneInX :: "real option"
  lk_note :: "string option"

record result =
  val :: jsval
  lookup :: "lookupInfo option"
  entropy :: "real option"

datatype outcome = Throws | NoResult | Result result

text \<open>
  What a test reads from the browser: the reading, or an exception raised while
  reading (a missing global, a blocked interface).
\<close>

datatype 'a reading = Raises | Reads 'a

datatype webglContext =
    NoContext
  | NoDebugInfo string
  | DebugInfo string string

record env =
  r_screenResolution :: "(real option \<times> real \<times> real) reading"
  r_pixelRatio :: "real option reading"
  r_timezone :: "string reading"
  r_language :: "string reading"
  r_userAgent :: "string reading"
  r_platform :: "string reading"
  r_doNotTrack :: "jsval reading"
  r_cpuCores :: "real option reading"
  r_deviceMemory :: "real option reading"
  r_touchSupport :: "real option reading"
  r_adBlocker :: "bool reading"
  r_connectionType :: "string option reading"
  r_webgl :: "webglContext reading"
  r_fonts :: "string list reading"
  r_canvas :: "string option reading"
  r_audio :: "real option reading"

text \<open>\<^verbatim>\<open>x || d\<close> for a number that may be undefined: undefined and zero give \<open>d\<close>.\<close>

definition orElse :: "real option \<Rightarrow> real \<Rightarrow> real" where
  "orElse x d = (case x of None \<Rightarrow> d | Some y \<Rightarrow> if y = 0 then d else y)"

text \<open>The two object literals that the tests repeat for \<^verbatim>\<open>lookup\<close>.\<close>

definition baselineLookup :: "baseline \<Rightarrow> lookupInfo" where
  "baselineLookup b =
     \<lparr> lk_percent = None, lk_source = bl_source b, lk_sourceLabel = bl_sourceLabel b,
       lk_estimated = True, lk_entropy = Some (bits b), lk_oneInX = Some (2 powr bits b),
       lk_note = Some (bl_note b) \<rparr>"

definition tableLookup :: "dataSource \<Rightarrow> share \<Rightarrow> lookupInfo" where
  "tableLookup dataSource sh =
     \<lparr> lk_percent = Some (percent sh), lk_source = Some (share_source sh),
       lk_sourceLabel = ds_sourceLabel dataSource, lk_estimated = False,
       lk_entropy = Some (percentToEntropy (percent sh)),
       lk_oneInX = Some (percentToOneInX (percent sh)), lk_note = None \<rparr>"

text \<open>
  The body shared by the tests that look a string up and fall back to a baseline
  record when the lookup is only an estimate.
\<close>

definition lookupOrBaseline :: "dataSource \<Rightarrow> baseline \<Rightarrow> jsval \<Rightarrow> string \<Rightarrow> outcome" where
  "lookupOrBaseline dataSource b v key =
     (let sh = lookupMarketShare dataSource key in
      Result \<lparr> val = v,
               lookup = Some (if estimated sh then baselineLookup b
                              else tableLookup dataSource sh),
               entropy = None \<rparr>)"

definition screenResolution_run ::
  "(real \<Rightarrow> string) \<Rightarrow> (real option \<times> real \<times> real) reading \<Rightarrow> outcome" where
  "screenResolution_run toStr rd =
     (case rd of
        Raises \<Rightarrow> Throws
      | Reads (devicePixelRatio, w, h) \<Rightarrow>
          (let dpr = orElse devicePixelRatio 1;
               width = js_round (w * dpr);
               height = js_round (h * dpr);
               resolution = toStr (real_of_int width) @ ''x'' @ toStr (real_of_int height)
           in lookupOrBaseline SCREEN_RESOLUTION_DATA BASELINE_screenResolution
                (JStr resolution) resolution))"

definition pixelRatio_run :: "(real \<Rightarrow> string) \<Rightarrow> real option reading \<Rightarrow> outcome" where
  "pixelRatio_run toStr rd =
     (case rd of
        Raises \<Rightarrow> Throws
      | Reads devicePixelRatio \<Rightarrow>
          (let a = analyzePixelRatio toStr (orElse devicePixelRatio 1);
               sh = lookupMarketShare PIXEL_RATIO_DATA (matchedBucket a)
           in if matchedBucket a \<noteq> [] \<and> \<not> estimated sh
              then Result \<lparr> val = JNum (displayRatio a),
                            lookup = Some (tableLookup PIXEL_RATIO_DATA sh),
                            entropy = None \<rparr>
              else Result \<lparr> val = JNum (displayRatio a),
                            lookup = Some (baselineLookup BASELINE_pixelRatio),
                            entropy = None \<rparr>))"

definition timezone_run :: "string reading \<Rightarrow> outcome" where
  "timezone_run rd =
     (case rd of
        Raises \<Rightarrow> Throws
      | Reads tz \<Rightarrow> lookupOrBaseline TIMEZONE_DATA BASELINE_timezone (JStr tz) tz)"

definition language_run :: "string reading \<Rightarrow> outcome" where
  "language_run rd =
     (case rd of
        Raises \<Rightarrow> Throws
      | Reads lang \<Rightarrow> lookupOrBaseline LANGUAGE_DATA BASELINE_language (JStr lang) lang)"

definition platform_run :: "string reading \<Rightarrow> outcome" where
  "platform_run rd =
     (case rd of
        Raises \<Rightarrow> Throws
      | Reads platform \<Rightarrow>
          lookupOrBaseline PLATFORM_DATA BASELINE_platform (JStr platform) platform)"

text \<open>
  \<^verbatim>\<open>parseUserAgent(ua).browser.split(' ')[0]\<close>: the browser family that
  \<^verbatim>\<open>parseUserAgent\<close> detects; the version it appends is cut off again.
\<close>

definition browserName :: "string \<Rightarrow> string" where
  "browserName ua =
     (if str_includes ua ''Firefox/'' then ''Firefox''
      else if str_includes ua ''Edg/'' then ''Edge''
      else if str_includes ua ''Chrome/'' then ''Chrome''
      else if str_includes ua ''Safari/'' \<and> \<not> str_includes ua ''Chrome'' then ''Safari''
      else ''Unknown'')"

definition userAgent_run :: "string reading \<Rightarrow> outcome" where
  "userAgent_run rd =
     (case rd of
        Raises \<Rightarrow> Throws
      | Reads ua \<Rightarrow>
          lookupOrBaseline BROWSER_DATA BASELINE_userAgent (JStr ua) (browserName ua))"

definition doNotTrack_run :: "jsval reading \<Rightarrow> outcome" where
  "doNotTrack_run rd =
     (case rd of
        Raises \<Rightarrow> Throws
      | Reads dnt \<Rightarrow>
          (let lookupKey = (if dnt = JStr ''1'' then ''1''
                            else if dnt = JStr ''0'' then ''0'' else ''null'');
               sh = lookupMarketShare DNT_DATA lookupKey
           in Result \<lparr> val = dnt,
                        lookup = Some ((tableLookup DNT_DATA sh)
                                         \<lparr> lk_estimated := estimated sh \<rparr>),
                        entropy = None \<rparr>))"

definition cpuCores_run :: "(real \<Rightarrow> string) \<Rightarrow> real option reading \<Rightarrow> outcome" where
  "cpuCores_run toStr rd =
     (case rd of
        Raises \<Rightarrow> Throws
      | Reads None \<Rightarrow> NoResult
      | Reads (Some cores) \<Rightarrow>
          if cores = 0 then NoResult
          else lookupOrBaseline CPU_CORES_DATA BASELINE_cpuCores (JNum cores) (toStr cores))"

definition deviceMemory_run :: "(real \<Rightarrow> string) \<Rightarrow> real option reading \<Rightarrow> outcome" where
  "deviceMemory_run toStr rd =
     (case rd of
        Raises \<Rightarrow> Throws
      | Reads None \<Rightarrow> NoResult
      | Reads (Some mem) \<Rightarrow>
          if mem = 0 then NoResult
          else lookupOrBaseline DEVICE_MEMORY_DATA BASELINE_deviceMemory (JNum mem) (toStr mem))"

definition touchSupport_run :: "real option reading \<Rightarrow> outcome" where
  "touchSupport_run rd =
     (case rd of
        Raises \<Rightarrow> Throws
      | Reads maxTouchPoints \<Rightarrow>
          Result \<lparr> val = JNum (orElse maxTouchPoints 0),
                   lookup = Some (baselineLookup BASELINE_touchSupport),
                   entropy = None \<rparr>)"

definition connectionType_run :: "string option reading \<Rightarrow> outcome" where
  "connectionType_run rd =
     (case rd of
        Raises \<Rightarrow> Throws
      | Reads None \<Rightarrow> NoResult
      | Reads (Some effectiveType) \<Rightarrow>
          if effectiveType = [] then NoResult
          else Result \<lparr> val = JStr effectiveType,
                        lookup = Some (baselineLookup BASELINE_connectionType),
                        entropy = None \<rparr>)"

text \<open>The canvas, WebGL and audio tests catch their exceptions and return \<^verbatim>\<open>null\<close>.\<close>

definition canvas_run :: "string option reading \<Rightarrow> outcome" where
  "canvas_run rd =
     (case rd of
        Raises \<Rightarrow> NoResult
      | Reads None \<Rightarrow> NoResult
      | Reads (Some dataUrl) \<Rightarrow>
          Result \<lparr> val = JStr dataUrl, lookup = Some (baselineLookup BASELINE_canvas),
                   entropy = None \<rparr>)"

definition webgl_run :: "webglContext reading \<Rightarrow> outcome" where
  "webgl_run rd =
     (case rd of
        Raises \<Rightarrow> NoResult
      | Reads NoContext \<Rightarrow> NoResult
      | Reads (NoDebugInfo renderer) \<Rightarrow>
          Result \<lparr> val = JStr renderer,
                   lookup = Some
                     \<lparr> lk_percent = None, lk_source = bl_source BASELINE_webglRenderer,
                       lk_sourceLabel = bl_sourceLabel BASELINE_webglRenderer,
                       lk_estimated = True,
                       lk_entropy = Some (bits BASELINE_webglRenderer * 0.5),
                       lk_oneInX = Some (2 powr (bits BASELINE_webglRenderer * 0.5)),
                       lk_note = Some ''Reduced entropy - WebGL debug info not available'' \<rparr>,
                   entropy = None \<rparr>
      | Reads (DebugInfo vendor renderer) \<Rightarrow>
          (let sh = lookupMarketShare GPU_DATA renderer;
               v = JObj [(''vendor'', JStr vendor), (''renderer'', JStr renderer)]
           in if \<not> estimated sh
              then Result \<lparr> val = v,
                            lookup = Some ((tableLookup GPU_DATA sh)
                                             \<lparr> lk_note := ds_note GPU_DATA \<rparr>),
                            entropy = None \<rparr>
              else (let combinedEntropy =
                          bits BASELINE_webglRenderer + bits BASELINE_webglVendor
                    in Result \<lparr> val = v,
                                 lookup = Some
                                   \<lparr> lk_percent = None,
                                     lk_source = bl_source BASELINE_webglRenderer,
                                     lk_sourceLabel = bl_sourceLabel BASELINE_webglRenderer,
                                     lk_estimated = True,
                                     lk_entropy = Some combinedEntropy,
                                     lk_oneInX = Some (2 powr combinedEntropy),
                                     lk_note = Some (bl_note BASELINE_webglRenderer) \<rparr>,
                                 entropy = None \<rparr>)))"

definition audio_run :: "real option reading \<Rightarrow> outcome" where
  "audio_run rd =
     (case rd of
        Raises \<Rightarrow> NoResult
      | Reads None \<Rightarrow> NoResult
      | Reads (Some signature) \<Rightarrow>
          Result \<lparr> val = JNum signature, lookup = Some (baselineLookup BASELINE_audio),
                   entropy = None \<rparr>)"

definition fonts_run :: "string list reading \<Rightarrow> outcome" where
  "fonts_run rd =
     (case rd of
        Raises \<Rightarrow> Throws
      | Reads detected \<Rightarrow>
          if detected = [] then NoResult
          else Result \<lparr> val = JArr (map JStr detected),
                        lookup = Some (baselineLookup BASELINE_fonts),
                        entropy = None \<rparr>)"

definition adBlocker_run :: "bool reading \<Rightarrow> outcome" where
  "adBlocker_run rd =
     (case rd of
        Raises \<Rightarrow> Throws
      | Reads blocked \<Rightarrow>
          (let lookupKey = (if blocked then ''true'' else ''false'');
               sh = lookupMarketShare AD_BLOCKER_DATA lookupKey
           in Result \<lparr> val = JBool blocked,
                        lookup = Some ((tableLookup AD_BLOCKER_DATA sh)
                                         \<lparr> lk_source := Some (ds_source AD_BLOCKER_DATA) \<rparr>),
                        entropy = None \<rparr>))"

record test =
  test_name :: string
  difficulty :: string
  changeRequires :: string
  run :: "env \<Rightarrow> outcome"

definition tests :: "(real \<Rightarrow> string) \<Rightarrow> (string \<times> test) list" where
  "tests toStr =
     [(''screenResolution'',
         \<lparr> test_name = ''Screen Resolution'', difficulty = ''hard'',
           changeRequires = ''Different monitor'',
           run = (\<lambda>e. screenResolution_run toStr (r_screenResolution e)) \<rparr>),
      (''pixelRatio'',
         \<lparr> test_name = ''Pixel Ratio'', difficulty = ''hard'',
           changeRequires = ''Different display'',
           run = (\<lambda>e. pixelRatio_run toStr (r_pixelRatio e)) \<rparr>),
      (''timezone'',
         \<lparr> test_name = ''Timezone'', difficulty = ''easy'',
           changeRequires = ''OS settings'',
           run = (\<lambda>e. timezone_run (r_timezone e)) \<rparr>),
      (''language'',
         \<lparr> test_name = ''Language'', difficulty = ''easy'',
           changeRequires = ''Browser settings'',
           run = (\<lambda>e. language_run (r_language e)) \<rparr>),
      (''platform'',
         \<lparr> test_name = ''Platform'', difficulty = ''medium'',
           changeRequires = ''Browser extension'',
           run = (\<lambda>e. platform_run (r_platform e)) \<rparr>),
      (''userAgent'',
         \<lparr> test_name = ''Browser/OS'', difficulty = ''medium'',
           changeRequires = ''Browser extension'',
           run = (\<lambda>e. userAgent_run (r_userAgent e)) \<rparr>),
      (''doNotTrack'',
         \<lparr> test_name = ''Do Not Track'', difficulty = ''easy'',
           changeRequires = ''Browser settings'',
           run = (\<lambda>e. doNotTrack_run (r_doNotTrack e)) \<rparr>),
      (''cpuCores'',
         \<lparr> test_name = ''CPU Cores'', difficulty = ''hard'',
           changeRequires = ''Different device'',
           run = (\<lambda>e. cpuCores_run toStr (r_cpuCores e)) \<rparr>),
      (''deviceMemory'',
         \<lparr> test_name = ''Device Memory'', difficulty = ''hard'',
           changeRequires = ''Different device'',
           run = (\<lambda>e. deviceMemory_run toStr (r_deviceMemory e)) \<rparr>),
      (''touchSupport'',
         \<lparr> test_name = ''Touch Support'', difficulty = ''hard'',
           changeRequires = ''Different device'',
           run = (\<lambda>e. touchSupport_run (r_touchSupport e)) \<rparr>),
      (''connectionType'',
         \<lparr> test_name = ''Connection Type'', difficulty = ''medium'',
           changeRequires = ''Different network'',
           run = (\<lambda>e. connectionType_run (r_connectionType e)) \<rparr>),
      (''canvas'',
         \<lparr> test_name = ''Canvas Fingerprint'', difficulty = ''hard'',
           changeRequires = ''Different browser/GPU, or disable via extension'',
           run = (\<lambda>e. canvas_run (r_canvas e)) \<rparr>),
      (''webgl'',
         \<lparr> test_name = ''WebGL'', difficulty = ''hard'',
           changeRequires = ''Different GPU, or disable in browser settings'',
           run = (\<lambda>e. webgl_run (r_webgl e)) \<rparr>),
      (''audio'',
         \<lparr> test_name = ''Audio Fingerprint'', difficulty = ''hard'',
           changeRequires = ''Different browser/audio hardware, or disable via extension'',
           run = (\<lambda>e. audio_run (r_audio e)) \<rparr>),
      (''fonts'',
         \<lparr> test_name = ''Installed Fonts'', difficulty = ''medium'',
           changeRequires = ''Install/remove fonts'',
           run = (\<lambda>e. fonts_run (r_fonts e)) \<rparr>),
      (''adBlocker'',
         \<lparr> test_name = ''Ad Blocker'', difficulty = ''easy'',
           changeRequires = ''Install/remove extension'',
           run = (\<lambda>e. adBlocker_run (r_adBlocker e)) \<rparr>)]"

subsection \<open>Section 7: what the interface shows\<close>

text \<open>
  Of \<^verbatim>\<open>addResultLine\<close> the model keeps what it computes: the formatted "1 in X" of
  the test, its bits (one decimal), the kind of source tag, the line on the
  cumulative uniqueness, and the flag it returns. The four branches of the
  cumulative line are the constructors of \<open>countLine\<close>; each carries the text of
  \<^verbatim>\<open>totalFormatted\<close> that the branch prints.
\<close>

datatype countLine =
    NowUniqueAmongAll numberText
  | StillUnique numberText
  | CurrentlyOneIn numberText
  | NowOneIn numberText

datatype sourceTag = SourceLink string | EstimatedLink string | EstimatedNoLink

record resultLine =
  ln_oneIn :: numberText
  ln_bits :: int
  ln_source :: sourceTag
  ln_count :: countLine

definition addResultLine ::
  "real \<Rightarrow> real \<Rightarrow> string option \<Rightarrow> bool \<Rightarrow> real \<Rightarrow> bool \<Rightarrow> bool \<Rightarrow> resultLine \<times> bool" where
  "addResultLine testEntropy oneInX sourceUrl isEstimated totalEntropy isFirstTest
       wasAlreadyUnique =
     (let testFormatted = formatNumber oneInX;
          tag = (case sourceUrl of
                   None \<Rightarrow> EstimatedNoLink
                 | Some url \<Rightarrow>
                     if url = [] then EstimatedNoLink
                     else if \<not> isEstimated then SourceLink url else EstimatedLink url);
          totalUniqueness = entropyToUniqueness totalEntropy;
          totalFormatted = formatNumber totalUniqueness;
          count =
            (if isUnique totalFormatted \<and> \<not> wasAlreadyUnique
             then NowUniqueAmongAll (fmt_text totalFormatted)
             else if isUnique totalFormatted then StillUnique (fmt_text totalFormatted)
             else if isFirstTest then CurrentlyOneIn (fmt_text totalFormatted)
             else NowOneIn (fmt_text totalFormatted))
      in (\<lparr> ln_oneIn = fmt_text testFormatted, ln_bits = toFixed1 testEntropy,
             ln_source = tag, ln_count = count \<rparr>,
          isUnique totalFormatted))"

datatype uniquenessText = YouAreUnique | YouAreOneIn numberText

record finalReveal =
  fr_tests :: nat
  fr_bits :: int
  fr_uniqueness :: uniquenessText
  fr_hash :: string

definition showFinalReveal :: "nat \<Rightarrow> real \<Rightarrow> string \<Rightarrow> finalReveal" where
  "showFinalReveal successful totalBits fingerprintHash =
     (let uniqueness = entropyToUniqueness totalBits;
          f = formatNumber uniqueness
      in \<lparr> fr_tests = successful, fr_bits = toFixed1 totalBits,
            fr_uniqueness = (if isUnique f then YouAreUnique else YouAreOneIn (fmt_text f)),
            fr_hash = fingerprintHash \<rparr>)"

record completedTest =
  ct_name :: string
  ct_difficulty :: string
  ct_changeRequires :: string
  ct_entropy :: real

text \<open>\<^verbatim>\<open>tests.reduce((sum, t) => sum + (t.entropy || 0), 0)\<close>\<close>

definition sumEntropy :: "completedTest list \<Rightarrow> real" where
  "sumEntropy ts = foldl (\<lambda>sum t. sum + ct_entropy t) 0 ts"

text \<open>The one place where the population constant caps a number.\<close>

definition calcPotentialOneInX :: "real \<Rightarrow> real \<Rightarrow> formatted" where
  "calcPotentialOneInX totalBits removedEntropy =
     (let remainingEntropy = totalBits - removedEntropy;
          uniqueness = 2 powr remainingEntropy
      in formatNumber (min uniqueness WORLD_POPULATION))"

record endState =
  es_failed :: "string list"
  es_easyTests :: "completedTest list"
  es_mediumTests :: "completedTest list"
  es_hardTests :: "completedTest list"
  es_easyEntropy :: real
  es_mediumEntropy :: real
  es_hardEntropy :: real
  es_easyPotential :: formatted
  es_easyMediumPotential :: formatted
  es_hardOnlyFormatted :: formatted

definition showEndState :: "nat \<Rightarrow> string list \<Rightarrow> completedTest list \<Rightarrow> endState" where
  "showEndState successful failed completed =
     (let easyTests = filter (\<lambda>t. ct_difficulty t = ''easy'') completed;
          mediumTests = filter (\<lambda>t. ct_difficulty t = ''medium'') completed;
          hardTests = filter (\<lambda>t. ct_difficulty t = ''hard'') completed;
          totalBits = sumEntropy completed;
          easyEntropy = sumEntropy easyTests;
          mediumEntropy = sumEntropy mediumTests;
          hardEntropy = sumEntropy hardTests;
          hardOnlyUniqueness = 2 powr hardEntropy
      in \<lparr> es_failed = failed, es_easyTests = easyTests, es_mediumTests = mediumTests,
            es_hardTests = hardTests, es_easyEntropy = easyEntropy,
            es_mediumEntropy = mediumEntropy, es_hardEntropy = hardEntropy,
            es_easyPotential = calcPotentialOneInX totalBits easyEntropy,
            es_easyMediumPotential =
              calcPotentialOneInX totalBits (easyEntropy + mediumEntropy),
            es_hardOnlyFormatted =
              formatNumber (min hardOnlyUniqueness WORLD_POPULATION) \<rparr>)"

subsection \<open>Section 8: the run\<close>

text \<open>The accumulators of \<^verbatim>\<open>runExperiment\<close>, and the lines it has put on the page.\<close>

record runState =
  totalEntropy :: real
  successfulTests :: nat
  failedTests :: "string list"
  fingerprintValues :: "jsval list"
  alreadyUnique :: bool
  completedTests :: "completedTest list"
  resultLines :: "resultLine list"

definition initialState :: runState where
  "initialState =
     \<lparr> totalEntropy = 0, successfulTests = 0, failedTests = [], fingerprintValues = [],
       alreadyUnique = False, completedTests = [], resultLines = [] \<rparr>"

definition testOrder :: "string list" where
  "testOrder =
     [''screenResolution'', ''pixelRatio'', ''timezone'', ''language'', ''userAgent'',
      ''platform'', ''doNotTrack'', ''cpuCores'', ''deviceMemory'', ''touchSupport'',
      ''adBlocker'', ''connectionType'', ''webgl'', ''fonts'', ''canvas'', ''audio'']"

text \<open>
  The priority chain that picks the entropy of a result: \<open>(entropyBits, sourceUrl,
  isEstimated)\<close>.
\<close>

definition resolveEntropy :: "string \<Rightarrow> result \<Rightarrow> real \<times> string option \<times> bool" where
  "resolveEntropy testName r =
     (case (case lookup r of None \<Rightarrow> None
            | Some l \<Rightarrow> (case lk_entropy l of None \<Rightarrow> None | Some e \<Rightarrow> Some (l, e))) of
        Some (l, e) \<Rightarrow> (e, lk_source l, lk_estimated l)
      | None \<Rightarrow>
          (case entropy r of
             Some e \<Rightarrow> (e, None, False)
           | None \<Rightarrow>
               if testName = ''webgl''
               then (bits BASELINE_webglRenderer + bits BASELINE_webglVendor,
                     bl_source BASELINE_webglRenderer, True)
               else (case map_of BASELINE_ENTROPY testName of
                       Some entropyConfig \<Rightarrow>
                         (bits entropyConfig, bl_source entropyConfig, True)
                     | None \<Rightarrow> (1.0, None, True))))"

text \<open>
  \<^verbatim>\<open>(result.lookup && result.lookup.oneInX) ? result.lookup.oneInX :
  entropyToUniqueness(entropyBits)\<close>
\<close>

definition resolveOneInX :: "result \<Rightarrow> real \<Rightarrow> real" where
  "resolveOneInX r entropyBits =
     (case lookup r of
        None \<Rightarrow> entropyToUniqueness entropyBits
      | Some l \<Rightarrow>
          (case lk_oneInX l of
             None \<Rightarrow> entropyToUniqueness entropyBits
           | Some x \<Rightarrow> if x = 0 then entropyToUniqueness entropyBits else x))"

text \<open>The part of the loop body that follows a result.\<close>

definition recordResult :: "string \<Rightarrow> test \<Rightarrow> result \<Rightarrow> runState \<Rightarrow> runState" where
  "recordResult testName t r st =
     (case resolveEntropy testName r of
        (entropyBits, sourceUrl, isEstimated) \<Rightarrow>
          (let total = totalEntropy st + entropyBits;
               successful = successfulTests st + 1;
               oneInX = resolveOneInX r entropyBits;
               shown = addResultLine entropyBits oneInX sourceUrl isEstimated total
                         (successful = 1) (alreadyUnique st)
           in \<lparr> totalEntropy = total,
                 successfulTests = successful,
                 failedTests = failedTests st,
                 fingerprintValues = fingerprintValues st @ [val r],
                 alreadyUnique = (alreadyUnique st \<or> snd shown),
                 completedTests = completedTests st
                   @ [\<lparr> ct_name = test_name t, ct_difficulty = difficulty t,
                        ct_changeRequires = changeRequires t, ct_entropy = entropyBits \<rparr>],
                 resultLines = resultLines st @ [fst shown] \<rparr>))"

text \<open>
  One turn of the loop over \<^verbatim>\<open>testOrder\<close>. A name without a test is skipped; an
  exception of \<^verbatim>\<open>run\<close> is caught and counted like a missing result.
\<close>

definition processTest :: "(string \<times> test) list \<Rightarrow> env \<Rightarrow> runState \<Rightarrow> string \<Rightarrow> runState" where
  "processTest ts e st testName =
     (case map_of ts testName of
        None \<Rightarrow> st
      | Some t \<Rightarrow>
          (case run t e of
             NoResult \<Rightarrow> st \<lparr> failedTests := failedTests st @ [test_name t] \<rparr>
           | Throws \<Rightarrow> st \<lparr> failedTests := failedTests st @ [test_name t] \<rparr>
           | Result r \<Rightarrow> recordResult testName t r st))"

definition runTests :: "(string \<times> test) list \<Rightarrow> env \<Rightarrow> string list \<Rightarrow> runState \<Rightarrow> runState" where
  "runTests ts e names st = foldl (processTest ts e) st names"

record runReport =
  rp_final :: runState
  rp_fingerprintHash :: string
  rp_reveal :: finalReveal
  rp_end :: endState

definition runExperiment :: "(string \<Rightarrow> string) \<Rightarrow> (real \<Rightarrow> string) \<Rightarrow> env \<Rightarrow> runReport" where
  "runExperiment md5 toStr e =
     (let st = runTests (tests toStr) e testOrder initialState;
          fingerprintHash = generateFingerprintHash md5 toStr (fingerprintValues st)
      in \<lparr> rp_final = st,
            rp_fingerprintHash = fingerprintHash,
            rp_reveal = showFinalReveal (successfulTests st) (totalEntropy st) fingerprintHash,
            rp_end = showEndState (successfulTests st) (failedTests st) (completedTests st) \<rparr>)"

subsection \<open>Notions used in the statements\<close>

text \<open>No percent of the table, and not its default, is above 100.\<close>

definition tableBounded :: "dataSource \<Rightarrow> bool" where
  "tableBounded dataSource =
     (list_all (\<lambda>e. snd e \<le> 100) (ds_data dataSource)
      \<and> defaultPercentOrOne dataSource \<le> 100)"




text \<open>
  What a run over a list of test names is to leave behind, read off the outcomes
  of the tests in the order of the list: the display names of the tests that throw
  or return nothing, and, for the tests that return a result, their entries in
  the list of completed tests and their values.
\<close>

definition spec_failedNames :: "(string \<times> test) list \<Rightarrow> env \<Rightarrow> string list \<Rightarrow> string list" where
  "spec_failedNames ts e names =
     concat (map (\<lambda>n. case map_of ts n of
                         None \<Rightarrow> []
                       | Some t \<Rightarrow> (case run t e of Result r \<Rightarrow> [] | _ \<Rightarrow> [test_name t]))
               names)"

definition spec_completedTests ::
  "(string \<times> test) list \<Rightarrow> env \<Rightarrow> string list \<Rightarrow> completedTest list" where
  "spec_completedTests ts e names =
     concat (map (\<lambda>n. case map_of ts n of
                         None \<Rightarrow> []
                       | Some t \<Rightarrow>
                           (case run t e of
                              Result r \<Rightarrow>
                                [\<lparr> ct_name = test_name t, ct_difficulty = difficulty t,
                                   ct_changeRequires = changeRequires t,
                                   ct_entropy = fst (resolveEntropy n r) \<rparr>]
                            | _ \<Rightarrow> []))
               names)"

definition spec_fingerprintValues ::
  "(string \<times> test) list \<Rightarrow> env \<Rightarrow> string list \<Rightarrow> jsval list" where
  "spec_fingerprintValues ts e names =
     concat (map (\<lambda>n. case map_of ts n of
                         None \<Rightarrow> []
                       | Some t \<Rightarrow> (case run t e of Result r \<Rightarrow> [val r] | _ \<Rightarrow> []))
               names)"

text \<open>
  A sample of readings for the closed statements: a desktop browser whose timezone
  reading raises an exception, without the device-memory and connection
  interfaces, and with a WebGL context that lacks the debug extension.
\<close>

definition sampleEnv :: env where
  "sampleEnv =
     \<lparr> r_screenResolution = Reads (Some 1, 1920, 1080),
       r_pixelRatio = Reads (Some 1),
       r_timezone = Raises,
       r_language = Reads ''en-US'',
       r_userAgent = Reads ''Mozilla/5.0 (X11; Linux x86_64) Chrome/120.0.0.0 Safari/537.36'',
       r_platform = Reads ''Linux x86_64'',
       r_doNotTrack = Reads JNull,
       r_cpuCores = Reads (Some 8),
       r_deviceMemory = Reads None,
       r_touchSupport = Reads (Some 0),
       r_adBlocker = Reads True,
       r_connectionType = Reads None,
       r_webgl = Reads (NoDebugInfo ''Mali-G78''),
       r_fonts = Reads [''Arial'', ''Ubuntu''],
       r_canvas = Reads (Some ''data:image/png;base64,iVBORw0KGgo=''),
       r_audio = Reads (Some 124.0434) \<rparr>"

section \<open>Properties\<close>

subsection \<open>Entropy formulas\<close>

lemma log2_4: "log 2 (4::real) = 2"
proof -
  have "log 2 ((2::real) ^ 2) = real 2 * log 2 2"
    by (rule log_nat_power) simp
  then show ?thesis by simp
qed

text \<open>
  Claim C5. For every percent above zero \<open>percentToEntropy\<close> is \<open>log2 (100 / percent)\<close>,
  so 25 percent are 2 bits and 100 percent are 0 bits; for every percent that is zero
  or negative the entropy is clamped to exactly 10 bits and \<open>percentToOneInX\<close> to
  exactly 1000.
\<close>

theorem C5_percent_conversions:
  "(0 < p \<longrightarrow> percentToEntropy p = log 2 (100 / p))
   \<and> percentToEntropy 25 = 2
   \<and> percentToEntropy 100 = 0
   \<and> (q \<le> 0 \<longrightarrow> percentToEntropy q = 10 \<and> percentToOneInX q = 1000)"
  by (simp add: percentToEntropy_def percentToOneInX_def log2_4)

theorem C5_percent_conversions_witness:
  "percentToEntropy 50 = log 2 (100 / 50) \<and> percentToEntropy 25 = 2
   \<and> percentToEntropy 100 = 0
   \<and> percentToEntropy (- 3) = 10 \<and> percentToOneInX (- 3) = 1000
   \<and> percentToEntropy 0 = 10 \<and> percentToOneInX 0 = 1000"
  using C5_percent_conversions [of 50 "- 3"] C5_percent_conversions [of 50 0]
  by simp

subsection \<open>The lookup resolver\<close>

lemma str_includes_Nil [simp]: "str_includes s []"
  by (cases s) simp_all

lemma partialMatch_first:
  "\<forall>e \<in> set pre. \<not> keyMatches nv (fst e) \<Longrightarrow> keyMatches nv k \<Longrightarrow>
   partialMatch ds nv (pre @ (k, p) # post) =
     Some \<lparr> percent = p, share_source = ds_source ds, estimated = estimatedOrFalse ds \<rparr>"
  by (induction pre) (auto simp: keyMatches_def)

lemma partialMatch_none:
  "\<forall>e \<in> set es. \<not> keyMatches nv (fst e) \<Longrightarrow> partialMatch ds nv es = None"
  by (induction es) (auto simp: keyMatches_def)

lemma set_ownEntries [simp]: "set (ownEntries d) = set d"
  by (auto simp: ownEntries_def)

lemma ownEntries_Nil_iff [simp]: "ownEntries d = [] \<longleftrightarrow> d = []"
  by (metis set_ownEntries set_empty)

lemma ownEntries_no_index:
  "\<forall>e \<in> set d. \<not> isArrayIndex (fst e) \<Longrightarrow> ownEntries d = d"
  by (simp add: ownEntries_def filter_empty_conv[THEN iffD2] filter_id_conv[THEN iffD2])

lemma estimatedOrFalse_False:
  "ds_estimated ds \<noteq> Some True \<Longrightarrow> estimatedOrFalse ds = False"
  by (auto simp: estimatedOrFalse_def split: option.splits)

lemmas table_eval =
  ownEntries_def isArrayIndex_def isDigit_def digitsValue_def trim_def isWhiteSpace_def
  estimatedOrFalse_def defaultPercentOrOne_def keyMatches_def

lemma tables_without_inherited_keys:
  "list_all (\<lambda>ds. list_all (\<lambda>e. fst e \<notin> set objectPrototypeMembers) (ds_data ds))
     marketShareTables"
  by (simp add: marketShareTables_def objectPrototypeMembers_def
      SCREEN_RESOLUTION_DATA_def BROWSER_DATA_def GPU_DATA_def PIXEL_RATIO_DATA_def
      DNT_DATA_def CPU_CORES_DATA_def DEVICE_MEMORY_DATA_def AD_BLOCKER_DATA_def
      TIMEZONE_DATA_def LANGUAGE_DATA_def PLATFORM_DATA_def)

text \<open>
  Claim C4, as stated, scans the keys in insertion order. The table
  \<open>DNT_DATA\<close> is written with the keys \<open>1\<close>, \<open>0\<close>, \<open>null\<close>; the value \<open>10\<close> is no key,
  the first key in insertion order that matches it is \<open>1\<close> (20 percent), and the
  code returns the percent of key \<open>0\<close> (3 percent), because \<open>Object.keys\<close> lists
  array-index keys first, in ascending order.
\<close>

theorem C4_insertion_order_counterexample:
  "map_of (ds_data DNT_DATA) (trim ''10'') = None
   \<and> map fst (ds_data DNT_DATA) = [''1'', ''0'', ''null'']
   \<and> objectKeys (ds_data DNT_DATA) = [''0'', ''1'', ''null'']
   \<and> spec_firstInsertionMatch DNT_DATA ''10'' = Some (''1'', 20)
   \<and> lookupMarketShare DNT_DATA ''10''
       = \<lparr> percent = 3, share_source = ds_source DNT_DATA, estimated = False \<rparr>"
  by (simp add: lookupMarketShare_def spec_firstInsertionMatch_def objectKeys_def DNT_DATA_def
      table_eval)

text \<open>
  Claim C4, amended. For every table that carries no true \<open>estimated\<close> property
  and every value: (1) if the trimmed value is a key, that key's percent is
  returned with \<open>estimated = False\<close>; and, for a value whose trimmed form is not the
  name of a member inherited from \<^verbatim>\<open>Object.prototype\<close>, (2) otherwise the keys are
  scanned in the order of \<open>Object.keys\<close> (array-index keys ascending, then the
  other keys in insertion order), and the first key that contains the trimmed value
  or is contained in it gives the percent, with \<open>estimated = False\<close>; (3) otherwise
  the table's \<open>defaultPercent\<close> (1.0 when it is missing or zero) is returned with
  \<open>estimated = True\<close>. Where no key is an array index, the scan order is the
  insertion order. What the code returns for an inherited name that is no key is
  not part of the statement.
\<close>

theorem C4_lookupMarketShare_tiers:
  assumes "ds_estimated ds \<noteq> Some True"
  shows
    "(map_of (ds_data ds) (trim v) = Some p \<longrightarrow>
        lookupMarketShare ds v
          = \<lparr> percent = p, share_source = ds_source ds, estimated = False \<rparr>)
     \<and> (\<not> inheritedName v
          \<and> map_of (ds_data ds) (trim v) = None
          \<and> ownEntries (ds_data ds) = pre @ (k, q) # post
          \<and> (\<forall>e \<in> set pre. \<not> keyMatches (trim v) (fst e))
          \<and> keyMatches (trim v) k \<longrightarrow>
        lookupMarketShare ds v
          = \<lparr> percent = q, share_source = ds_source ds, estimated = False \<rparr>)
     \<and> (\<not> inheritedName v
          \<and> map_of (ds_data ds) (trim v) = None
          \<and> (\<forall>e \<in> set (ds_data ds). \<not> keyMatches (trim v) (fst e)) \<longrightarrow>
        lookupMarketShare ds v
          = \<lparr> percent = defaultPercentOrOne ds, share_source = ds_source ds,
              estimated = True \<rparr>)
     \<and> ((\<forall>e \<in> set (ds_data ds). \<not> isArrayIndex (fst e)) \<longrightarrow>
        ownEntries (ds_data ds) = ds_data ds)"
proof -
  note est = estimatedOrFalse_False [OF assms]
  have exact: "lookupMarketShare ds v
      = \<lparr> percent = p, share_source = ds_source ds, estimated = False \<rparr>"
    if "map_of (ds_data ds) (trim v) = Some p"
    using that by (simp add: lookupMarketShare_def est)
  have partial: "lookupMarketShare ds v
      = \<lparr> percent = q, share_source = ds_source ds, estimated = False \<rparr>"
    if "map_of (ds_data ds) (trim v) = None"
      and "ownEntries (ds_data ds) = pre @ (k, q) # post"
      and "\<forall>e \<in> set pre. \<not> keyMatches (trim v) (fst e)"
      and "keyMatches (trim v) k"
    using that partialMatch_first [of pre "trim v" k ds q post]
    by (simp add: lookupMarketShare_def est)
  have dflt: "lookupMarketShare ds v
      = \<lparr> percent = defaultPercentOrOne ds, share_source = ds_source ds,
          estimated = True \<rparr>"
    if "map_of (ds_data ds) (trim v) = None"
      and "\<forall>e \<in> set (ds_data ds). \<not> keyMatches (trim v) (fst e)"
    using that partialMatch_none [of "ownEntries (ds_data ds)" "trim v" ds]
    by (simp add: lookupMarketShare_def)
  show ?thesis
    using exact partial dflt ownEntries_no_index [of "ds_data ds"] by blast
qed

theorem C4_lookupMarketShare_tiers_witness:
  "lookupMarketShare BROWSER_DATA '' Chrome ''
     = \<lparr> percent = 65, share_source = ds_source BROWSER_DATA, estimated = False \<rparr>
   \<and> lookupMarketShare BROWSER_DATA ''Firefox 119''
     = \<lparr> percent = 3, share_source = ds_source BROWSER_DATA, estimated = False \<rparr>
   \<and> lookupMarketShare BROWSER_DATA ''Unknown''
     = \<lparr> percent = 1, share_source = ds_source BROWSER_DATA, estimated = True \<rparr>
   \<and> ownEntries (ds_data BROWSER_DATA) = ds_data BROWSER_DATA"
proof -
  have e: "ds_estimated BROWSER_DATA \<noteq> Some True"
    by (simp add: BROWSER_DATA_def)
  have o: "ownEntries (ds_data BROWSER_DATA)
      = [(''Chrome'', 65), (''Safari'', 18), (''Edge'', 5)] @ (''Firefox'', 3) # [(''Opera'', 2)]"
    by (simp add: BROWSER_DATA_def table_eval)
  have 1: "lookupMarketShare BROWSER_DATA '' Chrome ''
      = \<lparr> percent = 65, share_source = ds_source BROWSER_DATA, estimated = False \<rparr>"
    using C4_lookupMarketShare_tiers [OF e, of "'' Chrome ''" 65]
    by (simp add: BROWSER_DATA_def table_eval)
  have 2: "lookupMarketShare BROWSER_DATA ''Firefox 119''
      = \<lparr> percent = 3, share_source = ds_source BROWSER_DATA, estimated = False \<rparr>"
    using C4_lookupMarketShare_tiers [OF e, of "''Firefox 119''" _
        "[(''Chrome'', 65), (''Safari'', 18), (''Edge'', 5)]" "''Firefox''" 3 "[(''Opera'', 2)]"] o
    by (simp add: BROWSER_DATA_def trim_def isWhiteSpace_def keyMatches_def
        inheritedName_def objectPrototypeMembers_def)
  have 3: "lookupMarketShare BROWSER_DATA ''Unknown''
      = \<lparr> percent = 1, share_source = ds_source BROWSER_DATA, estimated = True \<rparr>"
    using C4_lookupMarketShare_tiers [OF e, of "''Unknown''"]
    by (simp add: BROWSER_DATA_def trim_def isWhiteSpace_def keyMatches_def
        defaultPercentOrOne_def inheritedName_def objectPrototypeMembers_def)
  have 4: "ownEntries (ds_data BROWSER_DATA) = ds_data BROWSER_DATA"
    using C4_lookupMarketShare_tiers [OF e, of "''Unknown''"]
    by (simp add: BROWSER_DATA_def isArrayIndex_def isDigit_def)
  show ?thesis using 1 2 3 4 by simp
qed

text \<open>
  Claim C9, as stated, promises the percent of the first key in insertion order.
  For \<open>DNT_DATA\<close> that key is \<open>1\<close> (20 percent); the empty and the blank value
  get the percent of key \<open>0\<close> (3 percent), the first key of \<open>Object.keys\<close>.
\<close>

theorem C9_first_inserted_key_counterexample:
  "trim '''' = [] \<and> trim ''  '' = []
   \<and> hd (ds_data DNT_DATA) = (''1'', 20)
   \<and> lookupMarketShare DNT_DATA ''''
       = \<lparr> percent = 3, share_source = ds_source DNT_DATA, estimated = False \<rparr>
   \<and> lookupMarketShare DNT_DATA ''  ''
       = \<lparr> percent = 3, share_source = ds_source DNT_DATA, estimated = False \<rparr>"
  by (simp add: lookupMarketShare_def DNT_DATA_def table_eval)

text \<open>
  Claim C9, amended. For every table with at least one key, none of them the
  empty string, and no true \<open>estimated\<close> property, a value whose trimmed form is
  empty gets the percent of the first key in the order of \<open>Object.keys\<close>
  (array-index keys ascending, then the other keys in insertion order), with
  \<open>estimated = False\<close>: every key contains the empty string, so the default tier
  is not reached. Where no key is an array index this is the first key in
  insertion order.
\<close>

theorem C9_empty_value_first_key:
  assumes "trim v = []" and "ds_data ds \<noteq> []"
    and "map_of (ds_data ds) [] = None" and "ds_estimated ds \<noteq> Some True"
  shows
    "lookupMarketShare ds v
       = \<lparr> percent = snd (hd (ownEntries (ds_data ds))), share_source = ds_source ds,
           estimated = False \<rparr>
     \<and> ((\<forall>e \<in> set (ds_data ds). \<not> isArrayIndex (fst e)) \<longrightarrow>
          percent (lookupMarketShare ds v) = snd (hd (ds_data ds)))"
proof -
  obtain k p rest where o: "ownEntries (ds_data ds) = (k, p) # rest"
    using assms(2) by (cases "ownEntries (ds_data ds)") auto
  have r: "lookupMarketShare ds v
      = \<lparr> percent = p, share_source = ds_source ds, estimated = False \<rparr>"
    using assms(1,3) o
    by (simp add: lookupMarketShare_def estimatedOrFalse_False [OF assms(4)])
  have "p = snd (hd (ds_data ds))"
    if "\<forall>e \<in> set (ds_data ds). \<not> isArrayIndex (fst e)"
    using o ownEntries_no_index [OF that] by (cases "ds_data ds") auto
  then show ?thesis
    using r o by simp
qed

theorem C9_empty_value_first_key_witness:
  "lookupMarketShare DNT_DATA ''  ''
     = \<lparr> percent = 3, share_source = ds_source DNT_DATA, estimated = False \<rparr>
   \<and> lookupMarketShare BROWSER_DATA ''''
     = \<lparr> percent = 65, share_source = ds_source BROWSER_DATA, estimated = False \<rparr>
   \<and> percent (lookupMarketShare BROWSER_DATA '''') = snd (hd (ds_data BROWSER_DATA))"
proof -
  have d: "lookupMarketShare DNT_DATA ''  ''
      = \<lparr> percent = 3, share_source = ds_source DNT_DATA, estimated = False \<rparr>"
    using C9_empty_value_first_key [of "''  ''" DNT_DATA]
    by (simp add: DNT_DATA_def table_eval)
  have b: "lookupMarketShare BROWSER_DATA ''''
      = \<lparr> percent = 65, share_source = ds_source BROWSER_DATA, estimated = False \<rparr>
    \<and> percent (lookupMarketShare BROWSER_DATA '''') = snd (hd (ds_data BROWSER_DATA))"
    using C9_empty_value_first_key [of "''''" BROWSER_DATA]
    by (simp add: BROWSER_DATA_def table_eval)
  show ?thesis using d b by (simp add: BROWSER_DATA_def)
qed

subsection \<open>The pixel-ratio analysis\<close>

lemmas pixelRatio_eval =
  analyzePixelRatio_def js_round_def knownDPRs_def tolerance_def allMatches_def
  zoomMatches_def commonZoomLevels_def sortBy_def compareMatches_def

lemmas toString_eval =
  numberToString_def positiveToString_def natDigits.simps fracDigits.simps digitChar_def

text \<open>
  Claim C2, as stated, sends the input 0.37 to the default tier (base 1, scale 37,
  confidence low). The search finds a candidate first: base 1.25 at the 30 percent
  zoom level gives 0.375, and \<open>|0.37 - 0.375| = 0.005\<close> is below the tolerance 0.015.
\<close>

theorem C2_default_tier_counterexample:
  "analyzePixelRatio numberToString 0.37
     \<noteq> \<lparr> displayRatio = 0.37, trueDPR = 1, zoomPercent = 37, isZoomed = True,
         confidence = Low, matchedBucket = ''1'' \<rparr>
   \<and> trueDPR (analyzePixelRatio numberToString 0.37) = 1.25
   \<and> zoomPercent (analyzePixelRatio numberToString 0.37) = 30
   \<and> confidence (analyzePixelRatio numberToString 0.37) = Medium"
  by (simp add: pixelRatio_eval toString_eval)

text \<open>
  Claim C2, amended. For the input 2.0 the analysis returns base 2, scale 100,
  confidence high, not scaled; for 1.1 it returns base 1, scale 110, confidence
  medium, scaled; for 0.37 it returns base 1.25, scale 30, confidence medium,
  scaled. An input without any candidate, such as 0.2, falls through to the default
  tier: base 1 (the smallest canonical base ratio), scale \<open>round (0.2 * 100) = 20\<close>,
  confidence low, scaled.
\<close>

theorem C2_analyzePixelRatio_examples:
  "analyzePixelRatio numberToString 2.0
     = \<lparr> displayRatio = 2, trueDPR = 2, zoomPercent = 100, isZoomed = False,
         confidence = High, matchedBucket = ''2'' \<rparr>
   \<and> analyzePixelRatio numberToString 1.1
     = \<lparr> displayRatio = 1.1, trueDPR = 1, zoomPercent = 110, isZoomed = True,
         confidence = Medium, matchedBucket = ''1'' \<rparr>
   \<and> analyzePixelRatio numberToString 0.37
     = \<lparr> displayRatio = 0.37, trueDPR = 1.25, zoomPercent = 30, isZoomed = True,
         confidence = Medium, matchedBucket = ''1.25'' \<rparr>
   \<and> analyzePixelRatio numberToString 0.2
     = \<lparr> displayRatio = 0.2, trueDPR = 1, zoomPercent = 20, isZoomed = True,
         confidence = Low, matchedBucket = ''1'' \<rparr>
   \<and> hd knownDPRs = 1 \<and> sorted knownDPRs"
  by (simp add: pixelRatio_eval toString_eval)

subsection \<open>The baseline selection policy\<close>

lemmas baseline_defs =
  BASELINE_canvas_def BASELINE_audio_def BASELINE_webglRenderer_def BASELINE_webglVendor_def
  BASELINE_fonts_def BASELINE_userAgent_def BASELINE_timezone_def BASELINE_language_def
  BASELINE_touchSupport_def BASELINE_connectionType_def BASELINE_plugins_def
  BASELINE_doNotTrack_def BASELINE_cookiesEnabled_def BASELINE_localStorage_def
  BASELINE_screenResolution_def BASELINE_pixelRatio_def BASELINE_platform_def
  BASELINE_cpuCores_def BASELINE_deviceMemory_def

lemmas policy_eval =
  followsSelectionPolicy_def isMinimumOf_def candidateValues_def admittedValues_def
  documentedCandidates_def excludedCandidates_def estimateOnlyKeys_def

text \<open>
  Claim C8, as stated, makes the bits of every record but the timezone record the
  minimum of the figures documented for its attribute. The pixel-ratio record
  documents the one figure 5.64 and uses 2.0; the connection-type record (like the
  records for CPU cores and device memory) documents no figure of any study, so
  its 1.5 bits are not the minimum of documented figures either.
\<close>

theorem C8_estimate_records_counterexample:
  "bits BASELINE_pixelRatio = 2
   \<and> candidateValues ''pixelRatio'' = [5.64]
   \<and> \<not> isMinimumOf (bits BASELINE_pixelRatio) (candidateValues ''pixelRatio'')
   \<and> bits BASELINE_connectionType = 1.5
   \<and> candidateValues ''connectionType'' = []
   \<and> \<not> isMinimumOf (bits BASELINE_connectionType) (candidateValues ''connectionType'')"
  by (simp add: policy_eval baseline_defs)

text \<open>
  Claim C8, amended. Every record of \<open>BASELINE_ENTROPY\<close> has its documented figures,
  and: for the timezone record the least documented figure (0.10 bits, HitC 2018) is
  the excluded one and the bits (3.04) are the least of the remaining figures; the
  records for connection type, pixel ratio, CPU cores and device memory use an
  estimate that is below every figure documented for them and is not one of them;
  for each of the other fourteen records the bits are the minimum of the documented
  figures.
\<close>

theorem C8_baseline_selection_policy:
  "list_all followsSelectionPolicy BASELINE_ENTROPY
   \<and> map fst documentedCandidates = map fst BASELINE_ENTROPY
   \<and> map_of BASELINE_ENTROPY ''timezone'' = Some BASELINE_timezone
   \<and> bits BASELINE_timezone = 3.04"
  by (simp add: BASELINE_ENTROPY_def policy_eval baseline_defs)

subsection \<open>The fingerprint serialisation\<close>

lemmas json_eval = fingerprintString_def quoteJSONString_def escapeChar_def hexDigit_def

lemma hexDigit_inj: "a < 16 \<Longrightarrow> b < 16 \<Longrightarrow> hexDigit a = hexDigit b \<Longrightarrow> a = b"
proof -
  assume a: "a < 16" and b: "b < 16" and e: "hexDigit a = hexDigit b"
  have d: "distinct ''0123456789abcdef''" by simp
  have "''0123456789abcdef'' ! a = ''0123456789abcdef'' ! b"
    using e a b by (simp add: hexDigit_def)
  then show "a = b"
    using d a b by (simp add: nth_eq_iff_index_eq)
qed

lemma hexDigit_mod: "hexDigit n = hexDigit (n mod 16)"
  by (simp add: hexDigit_def)

lemma control_char_eq:
  assumes "(of_char c :: nat) < 32" "(of_char d :: nat) < 32"
    and "hexDigit ((of_char c :: nat) div 16) = hexDigit ((of_char d :: nat) div 16)"
    and "hexDigit (of_char c :: nat) = hexDigit (of_char d :: nat)"
  shows "c = d"
proof -
  let ?n = "of_char c :: nat" and ?m = "of_char d :: nat"
  have 1: "?n div 16 = ?m div 16"
    using assms(1,2,3) by (intro hexDigit_inj) auto
  have "hexDigit (?n mod 16) = hexDigit (?m mod 16)"
    using assms(4) hexDigit_mod by metis
  then have 2: "?n mod 16 = ?m mod 16"
    by (intro hexDigit_inj) auto
  have "?n = ?m"
    using 1 2 by (metis div_mult_mod_eq)
  then show ?thesis by simp
qed

lemma escapeChar_not_Nil: "escapeChar c \<noteq> []"
  by (simp add: escapeChar_def)

lemma escapeChar_hd: "hd (escapeChar c) \<noteq> CHR 0x22"
  by (simp add: escapeChar_def)

lemma escapeChar_prefix_code:
  "escapeChar c @ u = escapeChar d @ v \<Longrightarrow> c = d \<and> u = v"
  by (auto simp: escapeChar_def split: if_splits dest: control_char_eq)


lemma escaped_body_unique:
  "concat (map escapeChar s) @ CHR 0x22 # u = concat (map escapeChar t) @ CHR 0x22 # v
   \<Longrightarrow> s = t \<and> u = v"
proof (induction s arbitrary: t)
  case Nil
  show ?case
  proof (cases t)
    case Nil
    with Nil.prems show ?thesis by simp
  next
    case (Cons d ds)
    obtain x xs where x: "escapeChar d = x # xs"
      using escapeChar_not_Nil by (cases "escapeChar d") auto
    with escapeChar_hd [of d] have "x \<noteq> CHR 0x22" by simp
    with Nil.prems Cons x show ?thesis by simp
  qed
next
  case (Cons c cs)
  show ?case
  proof (cases t)
    case Nil
    obtain x xs where x: "escapeChar c = x # xs"
      using escapeChar_not_Nil by (cases "escapeChar c") auto
    with escapeChar_hd [of c] have "x \<noteq> CHR 0x22" by simp
    with Cons.prems Nil x show ?thesis by simp
  next
    case (Cons d ds)
    with Cons.prems have "escapeChar c @ (concat (map escapeChar cs) @ CHR 0x22 # u)
        = escapeChar d @ (concat (map escapeChar ds) @ CHR 0x22 # v)"
      by simp
    then have "c = d"
      and "concat (map escapeChar cs) @ CHR 0x22 # u = concat (map escapeChar ds) @ CHR 0x22 # v"
      using escapeChar_prefix_code by blast+
    with Cons.IH Cons show ?thesis by simp
  qed
qed

lemma quoteJSONString_prefix_code:
  "quoteJSONString s @ u = quoteJSONString t @ v \<Longrightarrow> s = t \<and> u = v"
  using escaped_body_unique [of s u t v] by (simp add: quoteJSONString_def)

lemma join_quoted_Cons:
  "join ''|'' (map quoteJSONString (x # xs))
   = quoteJSONString x
     @ (if xs = [] then [] else CHR ''|'' # join ''|'' (map quoteJSONString xs))"
  by (cases xs) simp_all

lemma quoteJSONString_not_Nil: "quoteJSONString s \<noteq> []"
  by (simp add: quoteJSONString_def)

lemma join_quoted_Nil: "(join ''|'' (map quoteJSONString xs) = []) = (xs = [])"
proof (cases xs)
  case Nil
  then show ?thesis by simp
next
  case (Cons a list)
  then show ?thesis
    by (simp only: join_quoted_Cons) (simp add: quoteJSONString_not_Nil)
qed

lemma join_quoted_inj:
  "join ''|'' (map quoteJSONString xs) = join ''|'' (map quoteJSONString ys) \<Longrightarrow> xs = ys"
proof (induction xs arbitrary: ys)
  case Nil
  then show ?case
    using join_quoted_Nil [of ys] by simp
next
  case (Cons x xs)
  show ?case
  proof (cases ys)
    case Nil
    with Cons.prems show ?thesis
      using join_quoted_Nil [of "x # xs"] by simp
  next
    case (Cons y zs)
    let ?rest = "\<lambda>l. if l = [] then [] else CHR ''|'' # join ''|'' (map quoteJSONString l)"
    from Cons.prems Cons have "quoteJSONString x @ ?rest xs = quoteJSONString y @ ?rest zs"
      by (simp only: join_quoted_Cons)
    then have xy: "x = y" and r: "?rest xs = ?rest zs"
      using quoteJSONString_prefix_code by blast+
    from r have "xs = zs"
      using Cons.IH [of zs] by (auto split: if_splits)
    with xy Cons show ?thesis by simp
  qed
qed

lemma fingerprintString_strings:
  "fingerprintString toStr (map JStr xs) = join ''|'' (map quoteJSONString xs)"
  by (simp add: fingerprintString_def comp_def)

text \<open>
  What the quoting does give: a list of string values can be read back from the
  joined string, because each value ends at the first quotation mark that is not
  part of an escape. So on lists of strings the serialisation is injective, bars
  inside the values notwithstanding.
\<close>

lemma fingerprintString_strings_inj:
  "fingerprintString toStr (map JStr xs) = fingerprintString toStr (map JStr ys) \<Longrightarrow> xs = ys"
  using join_quoted_inj by (simp add: fingerprintString_strings)

text \<open>
  Claim C3 says that the separator never appears unescaped within a serialised
  value and that the joined string is therefore different for different lists of
  values. The code, evaluated: \<^verbatim>\<open>JSON.stringify\<close> does not escape the separator, so the
  value \<open>a|b\<close> is serialised with the bar in it; and the empty list and the list
  \<open>[undefined]\<close> are joined to the same (empty) string, so they get the same hash.
\<close>

theorem C3_separator_not_escaped:
  "JSON_stringify toStr (JStr ''a|b'') = Some ([CHR 0x22] @ ''a|b'' @ [CHR 0x22])
   \<and> fingerprintString toStr [JStr ''a|b''] = [CHR 0x22] @ ''a|b'' @ [CHR 0x22]
   \<and> CHR ''|'' \<in> set (fingerprintString toStr [JStr ''a|b''])
   \<and> ([] :: jsval list) \<noteq> [JUndefined]
   \<and> fingerprintString toStr [] = fingerprintString toStr [JUndefined]
   \<and> generateFingerprintHash md5 toStr [] = generateFingerprintHash md5 toStr [JUndefined]"
  by (simp add: json_eval generateFingerprintHash_def)

subsection \<open>Entropy contributions are never negative\<close>

lemmas table_defs =
  SCREEN_RESOLUTION_DATA_def BROWSER_DATA_def GPU_DATA_def PIXEL_RATIO_DATA_def DNT_DATA_def
  CPU_CORES_DATA_def DEVICE_MEMORY_DATA_def AD_BLOCKER_DATA_def TIMEZONE_DATA_def
  LANGUAGE_DATA_def PLATFORM_DATA_def





lemma tables_bounded: "list_all tableBounded marketShareTables"
  by (simp add: marketShareTables_def tableBounded_def table_defs defaultPercentOrOne_def)

lemma table_bounded [simp]:
  "tableBounded SCREEN_RESOLUTION_DATA" "tableBounded BROWSER_DATA" "tableBounded GPU_DATA"
  "tableBounded PIXEL_RATIO_DATA" "tableBounded DNT_DATA" "tableBounded CPU_CORES_DATA"
  "tableBounded DEVICE_MEMORY_DATA" "tableBounded AD_BLOCKER_DATA"
  "tableBounded TIMEZONE_DATA" "tableBounded LANGUAGE_DATA" "tableBounded PLATFORM_DATA"
  using tables_bounded by (simp_all add: marketShareTables_def)


lemma baseline_nonneg [simp]:
  "0 \<le> bits BASELINE_canvas" "0 \<le> bits BASELINE_audio" "0 \<le> bits BASELINE_webglRenderer"
  "0 \<le> bits BASELINE_webglVendor" "0 \<le> bits BASELINE_fonts" "0 \<le> bits BASELINE_userAgent"
  "0 \<le> bits BASELINE_timezone" "0 \<le> bits BASELINE_language"
  "0 \<le> bits BASELINE_touchSupport" "0 \<le> bits BASELINE_connectionType"
  "0 \<le> bits BASELINE_screenResolution" "0 \<le> bits BASELINE_pixelRatio"
  "0 \<le> bits BASELINE_platform" "0 \<le> bits BASELINE_cpuCores"
  "0 \<le> bits BASELINE_deviceMemory"
  by (simp_all add: baseline_defs)




























lemma totalEntropy_recordResult:
  "totalEntropy (recordResult testName t r st)
     = totalEntropy st + fst (resolveEntropy testName r)"
  by (simp add: recordResult_def Let_def split: prod.splits)


lemma runTests_append:
  "runTests ts e (xs @ ys) st = runTests ts e ys (runTests ts e xs st)"
  by (simp add: runTests_def)

lemma runTests_snoc:
  "runTests ts e (xs @ [x]) st = processTest ts e (runTests ts e xs st) x"
  by (simp add: runTests_def)



subsection \<open>A failing test does not stop the run\<close>

lemma total_is_sum_processTest:
  assumes "totalEntropy st = sum_list (map ct_entropy (completedTests st))"
  shows "totalEntropy (processTest ts e st testName)
     = sum_list (map ct_entropy (completedTests (processTest ts e st testName)))"
  using assms
  by (auto simp: processTest_def recordResult_def Let_def
      split: option.splits outcome.splits prod.splits)

lemma total_is_sum_runTests:
  "totalEntropy st = sum_list (map ct_entropy (completedTests st)) \<Longrightarrow>
   totalEntropy (runTests ts e names st)
     = sum_list (map ct_entropy (completedTests (runTests ts e names st)))"
proof (induction names arbitrary: st)
  case Nil
  then show ?case by (simp add: runTests_def)
next
  case (Cons x xs)
  from Cons.IH [OF total_is_sum_processTest [OF Cons.prems]] show ?case
    by (simp add: runTests_def)
qed

lemma processTest_failure:
  assumes "map_of ts testName = Some t" and "run t e = Throws \<or> run t e = NoResult"
  shows "processTest ts e st testName = st \<lparr> failedTests := failedTests st @ [test_name t] \<rparr>"
  using assms by (auto simp: processTest_def)

lemma testOrder_has_tests: "list_all (\<lambda>n. map_of (tests toStr) n \<noteq> None) testOrder"
  by (simp add: testOrder_def tests_def)

text \<open>
  The loop leaves nothing out and changes no order: whatever the outcomes, the
  failure list, the list of completed tests, the values to be hashed and the
  success count grow by exactly what the outcomes of the names call for.
\<close>

lemma processTest_partition:
  "failedTests (processTest ts e st n) = failedTests st @ spec_failedNames ts e [n]
   \<and> completedTests (processTest ts e st n) = completedTests st @ spec_completedTests ts e [n]
   \<and> fingerprintValues (processTest ts e st n)
       = fingerprintValues st @ spec_fingerprintValues ts e [n]
   \<and> successfulTests (processTest ts e st n)
       = successfulTests st + length (spec_fingerprintValues ts e [n])"
  by (simp add: processTest_def recordResult_def spec_failedNames_def spec_completedTests_def
      spec_fingerprintValues_def Let_def split: option.splits outcome.splits prod.splits)

lemma spec_lists_Cons:
  "spec_failedNames ts e (n # names) = spec_failedNames ts e [n] @ spec_failedNames ts e names"
  "spec_completedTests ts e (n # names)
     = spec_completedTests ts e [n] @ spec_completedTests ts e names"
  "spec_fingerprintValues ts e (n # names)
     = spec_fingerprintValues ts e [n] @ spec_fingerprintValues ts e names"
  by (simp_all add: spec_failedNames_def spec_completedTests_def spec_fingerprintValues_def)

lemma spec_lists_Nil:
  "spec_failedNames ts e [] = []" "spec_completedTests ts e [] = []"
  "spec_fingerprintValues ts e [] = []"
  by (simp_all add: spec_failedNames_def spec_completedTests_def spec_fingerprintValues_def)

lemma runTests_partition:
  "failedTests (runTests ts e names st) = failedTests st @ spec_failedNames ts e names
   \<and> completedTests (runTests ts e names st)
       = completedTests st @ spec_completedTests ts e names
   \<and> fingerprintValues (runTests ts e names st)
       = fingerprintValues st @ spec_fingerprintValues ts e names
   \<and> successfulTests (runTests ts e names st)
       = successfulTests st + length (spec_fingerprintValues ts e names)"
proof (induction names arbitrary: st)
  case Nil
  show ?case by (simp add: runTests_def spec_lists_Nil)
next
  case (Cons n names)
  have "runTests ts e (n # names) st = runTests ts e names (processTest ts e st n)"
    by (simp add: runTests_def)
  then show ?case
    using Cons.IH [of "processTest ts e st n"] processTest_partition [of ts e st n]
    by (simp add: spec_lists_Cons [of ts e n names])
qed

text \<open>
  Claim C7. Take any position \<open>i\<close> of \<open>testOrder\<close> (each of its names has a test,
  see \<open>testOrder_has_tests\<close>) and let the test there throw or return no result.
  Then this turn of the loop appends the display name of the test to the failure
  list and leaves the entropy total, the success count, the values to be hashed and
  the list of completed tests as they were. The run goes on with every test after
  position \<open>i\<close>, in the order of \<open>testOrder\<close>: in the final report the failure list is
  the one before position \<open>i\<close>, the name of the failing test, and the names of the
  later tests that fail, in order; the completed tests and the values to be hashed
  are those before position \<open>i\<close> followed by those of the later tests that return a
  result, in order, and the success count has grown by their number. Over the whole
  run the three lists are those that the outcomes of \<open>testOrder\<close> call for. The
  report shows this failure list, and its hash is taken over these values.
\<close>

theorem C7_orchestrator_resilience:
  assumes "i < length testOrder"
    and "map_of (tests toStr) (testOrder ! i) = Some t"
    and "run t e = Throws \<or> run t e = NoResult"
  shows
    "let before = runTests (tests toStr) e (take i testOrder) initialState;
         after = processTest (tests toStr) e before (testOrder ! i);
         later = drop (Suc i) testOrder;
         report = runExperiment md5 toStr e;
         final = rp_final report
     in failedTests after = failedTests before @ [test_name t]
        \<and> totalEntropy after = totalEntropy before
        \<and> successfulTests after = successfulTests before
        \<and> fingerprintValues after = fingerprintValues before
        \<and> completedTests after = completedTests before
        \<and> final = runTests (tests toStr) e later after
        \<and> failedTests final
            = failedTests before @ [test_name t] @ spec_failedNames (tests toStr) e later
        \<and> completedTests final
            = completedTests before @ spec_completedTests (tests toStr) e later
        \<and> fingerprintValues final
            = fingerprintValues before @ spec_fingerprintValues (tests toStr) e later
        \<and> successfulTests final
            = successfulTests before + length (spec_fingerprintValues (tests toStr) e later)
        \<and> totalEntropy final = sum_list (map ct_entropy (completedTests final))
        \<and> failedTests final = spec_failedNames (tests toStr) e testOrder
        \<and> completedTests final = spec_completedTests (tests toStr) e testOrder
        \<and> fingerprintValues final = spec_fingerprintValues (tests toStr) e testOrder
        \<and> successfulTests final = length (fingerprintValues final)
        \<and> test_name t \<in> set (failedTests final)
        \<and> es_failed (rp_end report) = failedTests final
        \<and> rp_fingerprintHash report
            = generateFingerprintHash md5 toStr (fingerprintValues final)"
proof -
  define before where "before = runTests (tests toStr) e (take i testOrder) initialState"
  define after where "after = processTest (tests toStr) e before (testOrder ! i)"
  define later where "later = drop (Suc i) testOrder"
  define final where "final = rp_final (runExperiment md5 toStr e)"
  have a: "after = before \<lparr> failedTests := failedTests before @ [test_name t] \<rparr>"
    unfolding after_def using assms(2,3) by (rule processTest_failure)
  have "testOrder = take i testOrder @ [testOrder ! i] @ drop (Suc i) testOrder"
    using assms(1) by (simp add: id_take_nth_drop)
  then have "runTests (tests toStr) e testOrder initialState
      = runTests (tests toStr) e later after"
    unfolding after_def before_def later_def
    by (metis runTests_append runTests_snoc append_assoc)
  then have f: "final = runTests (tests toStr) e later after"
    by (simp add: final_def runExperiment_def Let_def)
  have w: "final = runTests (tests toStr) e testOrder initialState"
    by (simp add: final_def runExperiment_def Let_def)
  note p = runTests_partition [of "tests toStr" e later after, folded f]
  note q = runTests_partition [of "tests toStr" e testOrder initialState, folded w]
  have s: "totalEntropy final = sum_list (map ct_entropy (completedTests final))"
    unfolding w by (rule total_is_sum_runTests) (simp add: initialState_def)
  have r: "es_failed (rp_end (runExperiment md5 toStr e)) = failedTests final
      \<and> rp_fingerprintHash (runExperiment md5 toStr e)
        = generateFingerprintHash md5 toStr (fingerprintValues final)"
    by (simp add: final_def runExperiment_def showEndState_def Let_def)
  have m: "test_name t \<in> set (failedTests final)"
    using p a by simp
  show ?thesis
    unfolding Let_def before_def [symmetric] after_def [symmetric] later_def [symmetric]
      final_def [symmetric]
    using a f p q s r m by (simp add: initialState_def)
qed

lemmas run_defs =
  screenResolution_run_def pixelRatio_run_def timezone_run_def language_run_def
  platform_run_def userAgent_run_def doNotTrack_run_def cpuCores_run_def
  deviceMemory_run_def touchSupport_run_def connectionType_run_def canvas_run_def
  webgl_run_def audio_run_def fonts_run_def adBlocker_run_def lookupOrBaseline_def

theorem C7_orchestrator_resilience_witness:
  "failedTests (processTest (tests numberToString) sampleEnv
       (runTests (tests numberToString) sampleEnv (take 2 testOrder) initialState)
       ''timezone'')
     = failedTests (runTests (tests numberToString) sampleEnv (take 2 testOrder) initialState)
       @ [''Timezone'']
   \<and> totalEntropy (processTest (tests numberToString) sampleEnv
       (runTests (tests numberToString) sampleEnv (take 2 testOrder) initialState)
       ''timezone'')
     = totalEntropy (runTests (tests numberToString) sampleEnv (take 2 testOrder) initialState)
   \<and> failedTests (rp_final (runExperiment id numberToString sampleEnv))
     = [''Timezone'', ''Device Memory'', ''Connection Type'']
   \<and> map ct_name (completedTests (rp_final (runExperiment id numberToString sampleEnv)))
     = [''Screen Resolution'', ''Pixel Ratio'', ''Language'', ''Browser/OS'', ''Platform'',
        ''Do Not Track'', ''CPU Cores'', ''Touch Support'', ''Ad Blocker'', ''WebGL'',
        ''Installed Fonts'', ''Canvas Fingerprint'', ''Audio Fingerprint'']
   \<and> fingerprintValues (rp_final (runExperiment id numberToString sampleEnv))
     = [JStr ''1920x1080'', JNum 1, JStr ''en-US'',
        JStr ''Mozilla/5.0 (X11; Linux x86_64) Chrome/120.0.0.0 Safari/537.36'',
        JStr ''Linux x86_64'', JNull, JNum 8, JNum 0, JBool True, JStr ''Mali-G78'',
        JArr [JStr ''Arial'', JStr ''Ubuntu''], JStr ''data:image/png;base64,iVBORw0KGgo='',
        JNum 124.0434]
   \<and> successfulTests (rp_final (runExperiment id numberToString sampleEnv)) = 13
   \<and> es_failed (rp_end (runExperiment id numberToString sampleEnv))
     = [''Timezone'', ''Device Memory'', ''Connection Type'']"
proof -
  let ?t = "\<lparr> test_name = ''Timezone'', difficulty = ''easy'',
              changeRequires = ''OS settings'',
              run = (\<lambda>e. timezone_run (r_timezone e)) \<rparr>"
  have i: "2 < length testOrder" and n: "testOrder ! 2 = ''timezone''"
    by (simp_all add: testOrder_def)
  have m: "map_of (tests numberToString) (testOrder ! 2) = Some ?t"
    by (simp add: n tests_def)
  have r: "run ?t sampleEnv = Throws \<or> run ?t sampleEnv = NoResult"
    by (simp add: sampleEnv_def timezone_run_def)
  have fl: "spec_failedNames (tests numberToString) sampleEnv testOrder
      = [''Timezone'', ''Device Memory'', ''Connection Type'']"
    by (simp add: spec_failedNames_def testOrder_def tests_def sampleEnv_def run_defs Let_def)
  have cl: "map ct_name (spec_completedTests (tests numberToString) sampleEnv testOrder)
      = [''Screen Resolution'', ''Pixel Ratio'', ''Language'', ''Browser/OS'', ''Platform'',
         ''Do Not Track'', ''CPU Cores'', ''Touch Support'', ''Ad Blocker'', ''WebGL'',
         ''Installed Fonts'', ''Canvas Fingerprint'', ''Audio Fingerprint'']"
    by (simp add: spec_completedTests_def testOrder_def tests_def sampleEnv_def run_defs Let_def)
  have vl: "spec_fingerprintValues (tests numberToString) sampleEnv testOrder
      = [JStr ''1920x1080'', JNum 1, JStr ''en-US'',
         JStr ''Mozilla/5.0 (X11; Linux x86_64) Chrome/120.0.0.0 Safari/537.36'',
         JStr ''Linux x86_64'', JNull, JNum 8, JNum 0, JBool True, JStr ''Mali-G78'',
         JArr [JStr ''Arial'', JStr ''Ubuntu''], JStr ''data:image/png;base64,iVBORw0KGgo='',
         JNum 124.0434]"
    by (simp add: spec_fingerprintValues_def testOrder_def tests_def sampleEnv_def run_defs
        Let_def orElse_def pixelRatio_eval toString_eval)
  note whole = C7_orchestrator_resilience [OF i m r, of id, unfolded Let_def n test.select_convs]
  let ?final = "rp_final (runExperiment id numberToString sampleEnv)"
  have 1: "failedTests (processTest (tests numberToString) sampleEnv
         (runTests (tests numberToString) sampleEnv (take 2 testOrder) initialState)
         ''timezone'')
       = failedTests (runTests (tests numberToString) sampleEnv (take 2 testOrder) initialState)
         @ [''Timezone'']"
    using whole by blast
  have 2: "totalEntropy (processTest (tests numberToString) sampleEnv
         (runTests (tests numberToString) sampleEnv (take 2 testOrder) initialState)
         ''timezone'')
       = totalEntropy (runTests (tests numberToString) sampleEnv (take 2 testOrder) initialState)"
    using whole by blast
  have 3: "failedTests ?final = spec_failedNames (tests numberToString) sampleEnv testOrder"
    using whole by blast
  have 4: "completedTests ?final
      = spec_completedTests (tests numberToString) sampleEnv testOrder"
    using whole by blast
  have 5: "fingerprintValues ?final
      = spec_fingerprintValues (tests numberToString) sampleEnv testOrder"
    using whole by blast
  have 6: "successfulTests ?final = length (fingerprintValues ?final)"
    using whole by blast
  have 7: "es_failed (rp_end (runExperiment id numberToString sampleEnv)) = failedTests ?final"
    using whole by blast
  show ?thesis
    unfolding 1 2 7 6 3 4 5 fl cl vl by simp
qed

subsection \<open>The WebGL test without the debug extension\<close>

text \<open>
  Claim C10. With a WebGL context but without the extension
  \<^verbatim>\<open>WEBGL_debug_renderer_info\<close> the test states exactly half the renderer baseline,
  \<open>3.41 * 0.5 = 1.705\<close> bits, marked as estimated, and the run takes this entropy;
  with the extension and a renderer that the GPU table does not resolve, it states
  the sum of the renderer and the vendor baseline, \<open>3.41 + 1.82 = 5.23\<close> bits.
\<close>

theorem C10_webgl_without_debug_info:
  "webgl_run (Reads (NoDebugInfo renderer))
     = Result \<lparr> val = JStr renderer,
                lookup = Some
                  \<lparr> lk_percent = None, lk_source = Some AMIUNIQUE_2016,
                    lk_sourceLabel = ''AmIUnique 2016 (Table 2)'', lk_estimated = True,
                    lk_entropy = Some 1.705, lk_oneInX = Some (2 powr 1.705),
                    lk_note = Some ''Reduced entropy - WebGL debug info not available'' \<rparr>,
                entropy = None \<rparr>
   \<and> bits BASELINE_webglRenderer = 3.41
   \<and> bits BASELINE_webglRenderer * 0.5 = 1.705
   \<and> (webgl_run (Reads (NoDebugInfo renderer)) = Result r \<longrightarrow>
        resolveEntropy ''webgl'' r = (1.705, Some AMIUNIQUE_2016, True))
   \<and> (estimated (lookupMarketShare GPU_DATA renderer) \<longrightarrow>
        webgl_run (Reads (DebugInfo vendor renderer))
          = Result \<lparr> val = JObj [(''vendor'', JStr vendor), (''renderer'', JStr renderer)],
                     lookup = Some
                       \<lparr> lk_percent = None, lk_source = Some AMIUNIQUE_2016,
                         lk_sourceLabel = ''AmIUnique 2016 (Table 2)'', lk_estimated = True,
                         lk_entropy = Some 5.23, lk_oneInX = Some (2 powr 5.23),
                         lk_note = Some ''Conservative estimate; HitC 2018 found 5.28 bits'' \<rparr>,
                     entropy = None \<rparr>)"
  by (auto simp: webgl_run_def resolveEntropy_def BASELINE_webglRenderer_def
      BASELINE_webglVendor_def Let_def)

theorem C10_webgl_without_debug_info_witness:
  "webgl_run (Reads (NoDebugInfo ''Mali-G78''))
     = Result \<lparr> val = JStr ''Mali-G78'',
                lookup = Some
                  \<lparr> lk_percent = None, lk_source = Some AMIUNIQUE_2016,
                    lk_sourceLabel = ''AmIUnique 2016 (Table 2)'', lk_estimated = True,
                    lk_entropy = Some 1.705, lk_oneInX = Some (2 powr 1.705),
                    lk_note = Some ''Reduced entropy - WebGL debug info not available'' \<rparr>,
                entropy = None \<rparr>
   \<and> resolveEntropy ''webgl''
        \<lparr> val = JStr ''Mali-G78'',
          lookup = Some
            \<lparr> lk_percent = None, lk_source = Some AMIUNIQUE_2016,
              lk_sourceLabel = ''AmIUnique 2016 (Table 2)'', lk_estimated = True,
              lk_entropy = Some 1.705, lk_oneInX = Some (2 powr 1.705),
              lk_note = Some ''Reduced entropy - WebGL debug info not available'' \<rparr>,
          entropy = None \<rparr>
       = (1.705, Some AMIUNIQUE_2016, True)
   \<and> webgl_run (Reads (DebugInfo ''ARM'' ''Mali-G78''))
     = Result \<lparr> val = JObj [(''vendor'', JStr ''ARM''), (''renderer'', JStr ''Mali-G78'')],
                lookup = Some
                  \<lparr> lk_percent = None, lk_source = Some AMIUNIQUE_2016,
                    lk_sourceLabel = ''AmIUnique 2016 (Table 2)'', lk_estimated = True,
                    lk_entropy = Some 5.23, lk_oneInX = Some (2 powr 5.23),
                    lk_note = Some ''Conservative estimate; HitC 2018 found 5.28 bits'' \<rparr>,
                entropy = None \<rparr>"
proof -
  have miss: "estimated (lookupMarketShare GPU_DATA ''Mali-G78'')"
    by (simp add: lookupMarketShare_def GPU_DATA_def table_eval)
  let ?r = "\<lparr> val = JStr ''Mali-G78'',
              lookup = Some
                \<lparr> lk_percent = None, lk_source = Some AMIUNIQUE_2016,
                  lk_sourceLabel = ''AmIUnique 2016 (Table 2)'', lk_estimated = True,
                  lk_entropy = Some 1.705, lk_oneInX = Some (2 powr 1.705),
                  lk_note = Some ''Reduced entropy - WebGL debug info not available'' \<rparr>,
              entropy = None \<rparr>"
  show ?thesis
    using C10_webgl_without_debug_info [of "''Mali-G78''" ?r "''ARM''"] miss
    by simp
qed

subsection \<open>The population cap\<close>

lemma WORLD_POPULATION_formatted:
  "formatNumber WORLD_POPULATION
     = \<lparr> fmt_text = Billion 83, isUnique = True, raw = WORLD_POPULATION \<rparr>"
  by (simp add: formatNumber_def WORLD_POPULATION_def toFixed1_def)

text \<open>
  Where the population constant is used. Once \<open>2^bits\<close> reaches it, \<open>formatNumber\<close>
  sets \<open>isUnique\<close> and keeps the number it was given, \<open>addResultLine\<close> returns the
  flag and prints one of its two "unique" lines with the text of that number, and
  the final reveal prints "You are unique" without a number. The minimum with the
  constant is taken in the end-state report, whose figures are then exactly the
  constant. The total is not touched by any of this: each recorded result adds its
  entropy, and the total of a run is the sum of the entropies of its completed
  tests.
\<close>

lemma population_constant_uses:
  "(WORLD_POPULATION \<le> entropyToUniqueness totalBits \<longrightarrow>
      isUnique (formatNumber (entropyToUniqueness totalBits))
      \<and> raw (formatNumber (entropyToUniqueness totalBits)) = 2 powr totalBits
      \<and> fmt_text (formatNumber (entropyToUniqueness totalBits))
          = (if 10 ^ 12 \<le> 2 powr totalBits then Trillion (toFixed1 (2 powr totalBits / 10 ^ 12))
             else Billion (toFixed1 (2 powr totalBits / 10 ^ 9)))
      \<and> snd (addResultLine testEntropy oneInX sourceUrl isEstimated totalBits isFirstTest
                wasAlreadyUnique)
      \<and> ln_count (fst (addResultLine testEntropy oneInX sourceUrl isEstimated totalBits
                          isFirstTest wasAlreadyUnique))
          = (if wasAlreadyUnique
             then StillUnique (fmt_text (formatNumber (entropyToUniqueness totalBits)))
             else NowUniqueAmongAll (fmt_text (formatNumber (entropyToUniqueness totalBits))))
      \<and> fr_uniqueness (showFinalReveal successful totalBits fingerprintHash) = YouAreUnique)
   \<and> (WORLD_POPULATION \<le> 2 powr (totalBits - removedEntropy) \<longrightarrow>
        calcPotentialOneInX totalBits removedEntropy
          = \<lparr> fmt_text = Billion 83, isUnique = True, raw = WORLD_POPULATION \<rparr>)
   \<and> (WORLD_POPULATION
          \<le> 2 powr sumEntropy (filter (\<lambda>t. ct_difficulty t = ''hard'') completed) \<longrightarrow>
        es_hardOnlyFormatted (showEndState successful failed completed)
          = \<lparr> fmt_text = Billion 83, isUnique = True, raw = WORLD_POPULATION \<rparr>)
   \<and> totalEntropy (recordResult testName t r st)
       = totalEntropy st + fst (resolveEntropy testName r)
   \<and> totalEntropy (rp_final (runExperiment md5 toStr e))
       = sum_list (map ct_entropy (completedTests (rp_final (runExperiment md5 toStr e))))"
proof -
  have shown: "isUnique (formatNumber (entropyToUniqueness totalBits))
      \<and> raw (formatNumber (entropyToUniqueness totalBits)) = 2 powr totalBits
      \<and> fmt_text (formatNumber (entropyToUniqueness totalBits))
          = (if 10 ^ 12 \<le> 2 powr totalBits then Trillion (toFixed1 (2 powr totalBits / 10 ^ 12))
             else Billion (toFixed1 (2 powr totalBits / 10 ^ 9)))"
    if "WORLD_POPULATION \<le> entropyToUniqueness totalBits"
    using that
    by (simp add: formatNumber_def entropyToUniqueness_def WORLD_POPULATION_def)
  have line: "snd (addResultLine testEntropy oneInX sourceUrl isEstimated totalBits isFirstTest
                wasAlreadyUnique)
      \<and> ln_count (fst (addResultLine testEntropy oneInX sourceUrl isEstimated totalBits
                          isFirstTest wasAlreadyUnique))
          = (if wasAlreadyUnique
             then StillUnique (fmt_text (formatNumber (entropyToUniqueness totalBits)))
             else NowUniqueAmongAll (fmt_text (formatNumber (entropyToUniqueness totalBits))))
      \<and> fr_uniqueness (showFinalReveal successful totalBits fingerprintHash) = YouAreUnique"
    if "WORLD_POPULATION \<le> entropyToUniqueness totalBits"
    using shown [OF that]
    by (simp add: addResultLine_def showFinalReveal_def Let_def)
  have capped: "calcPotentialOneInX totalBits removedEntropy
      = \<lparr> fmt_text = Billion 83, isUnique = True, raw = WORLD_POPULATION \<rparr>"
    if "WORLD_POPULATION \<le> 2 powr (totalBits - removedEntropy)"
    using that
    by (simp add: calcPotentialOneInX_def Let_def min_absorb2 WORLD_POPULATION_formatted)
  have hard: "es_hardOnlyFormatted (showEndState successful failed completed)
      = \<lparr> fmt_text = Billion 83, isUnique = True, raw = WORLD_POPULATION \<rparr>"
    if "WORLD_POPULATION
          \<le> 2 powr sumEntropy (filter (\<lambda>t. ct_difficulty t = ''hard'') completed)"
    using that
    by (simp add: showEndState_def Let_def min_absorb2 WORLD_POPULATION_formatted)
  have "totalEntropy (runTests (tests toStr) e testOrder initialState)
      = sum_list (map ct_entropy
          (completedTests (runTests (tests toStr) e testOrder initialState)))"
    by (rule total_is_sum_runTests) (simp add: initialState_def)
  then have whole: "totalEntropy (rp_final (runExperiment md5 toStr e))
      = sum_list (map ct_entropy (completedTests (rp_final (runExperiment md5 toStr e))))"
    by (simp add: runExperiment_def Let_def)
  show ?thesis
    using shown line capped hard whole totalEntropy_recordResult [of testName t r st]
    by blast
qed

text \<open>
  Claim C1 has the display show \<open>min (2^cumulativeBits, WORLD_POPULATION)\<close>, that is
  exactly the population constant, once the cap is reached; the comment on
  \<^verbatim>\<open>WORLD_POPULATION\<close> says the same ("the value is capped"). The code, evaluated at
  40 bits, where the cap is reached: the end-state report does show the capped
  figure ("8.3 billion") and the final reveal shows no number, but both "unique"
  lines of \<open>addResultLine\<close>, the line shown after each test, print the text of the
  uncapped \<open>2^40 = 1099511627776\<close> ("1.1 trillion").
\<close>

theorem C1_result_line_not_capped:
  "WORLD_POPULATION \<le> entropyToUniqueness 40
   \<and> min (entropyToUniqueness 40) WORLD_POPULATION = WORLD_POPULATION
   \<and> fmt_text (formatNumber WORLD_POPULATION) = Billion 83
   \<and> formatNumber (entropyToUniqueness 40)
       = \<lparr> fmt_text = Trillion 11, isUnique = True, raw = 1099511627776 \<rparr>
   \<and> ln_count (fst (addResultLine 10 1024 None True 40 False True)) = StillUnique (Trillion 11)
   \<and> ln_count (fst (addResultLine 10 1024 None True 40 False False))
       = NowUniqueAmongAll (Trillion 11)
   \<and> fr_uniqueness (showFinalReveal 12 40 ''0123'') = YouAreUnique
   \<and> es_hardOnlyFormatted
        (showEndState 1 []
           [\<lparr> ct_name = ''Canvas Fingerprint'', ct_difficulty = ''hard'',
              ct_changeRequires = ''Different browser/GPU, or disable via extension'',
              ct_entropy = 40 \<rparr>])
       = \<lparr> fmt_text = Billion 83, isUnique = True, raw = WORLD_POPULATION \<rparr>"
  by (simp add: addResultLine_def formatNumber_def entropyToUniqueness_def
      WORLD_POPULATION_def toFixed1_def showFinalReveal_def showEndState_def sumEntropy_def
      Let_def)

end
